theory Spec2Isabelle
  imports Main "HOL-Library.Multiset"
begin

section \<open>Exceptions\<close>

text \<open>
  The HTTP exceptions the services and controllers throw, each with its message.
  \<open>new InternalServerErrorException()\<close> without an argument carries the framework's
  default message, which is the text \<open>Internal Server Error\<close> too.
  \<open>PrismaError\<close> is an error of the persistence layer as the client library raises
  it, and \<open>JsonWebTokenError\<close> what the JWT service throws at a token it rejects.
\<close>

datatype exn =
    BadRequestException string
  | UnauthorizedException string
  | NotFoundException string
  | InternalServerErrorException string
  | PrismaError string
  | JsonWebTokenError

section \<open>Rows and tables (migration.sql)\<close>

record user =
  u_UserID :: int
  u_FirstName :: string
  u_LastName :: string
  u_Email :: string
  u_Password :: string

record topics =
  t_TopicID :: int
  t_Title :: string
  t_Content :: string
  t_CreatedAt :: int
  t_CreatorID :: int
  t_LikesNb :: int

record questions =
  q_QuestionID :: int
  q_Title :: string
  q_Content :: string
  q_CreatedAt :: int
  q_CreatorID :: int
  q_LikesNb :: int

record events =
  e_EventID :: int
  e_Title :: string
  e_Description :: string
  e_Date :: int
  e_Location :: string
  e_CreatorID :: int
  e_LikesNB :: int

record replies =
  r_ReplyID :: int
  r_Content :: string
  r_CreatedAt :: int
  r_CreatorID :: int
  r_QuestionID :: "int option"
  r_TopicID :: "int option"
  r_LikesNB :: int

record likes =
  l_LikeID :: int
  l_UserID :: int
  l_EventID :: "int option"
  l_TopicID :: "int option"
  l_QuestionID :: "int option"
  l_ReplyID :: "int option"

record saved =
  s_SavedID :: int
  s_UserID :: int
  s_EventID :: "int option"
  s_TopicID :: "int option"
  s_QuestionID :: "int option"

text \<open>
  Every call of a Prisma delegate is one round trip to the store; the store records
  them in the order they are made.
\<close>

datatype table = User | Topics | Questions | Events | Replies | Likes | Saved

datatype query =
    FindUnique table
  | FindMany table
  | Create table
  | Update table
  | Delete table

text \<open>
  The store: the seven tables in row order, the last value handed out by each
  \<open>SERIAL\<close> sequence, and the round trips made so far.
\<close>

record db =
  users :: "user list"
  topics :: "topics list"
  questions :: "questions list"
  events :: "events list"
  replies :: "replies list"
  likes :: "likes list"
  saved :: "saved list"
  seq_User :: int
  seq_Topics :: int
  seq_Questions :: int
  seq_Events :: int
  seq_Replies :: int
  seq_Likes :: int
  calls :: "query list"

definition empty_db :: db where
  "empty_db = \<lparr>users = [], topics = [], questions = [], events = [], replies = [],
     likes = [], saved = [], seq_User = 0, seq_Topics = 0, seq_Questions = 0,
     seq_Events = 0, seq_Replies = 0, seq_Likes = 0, calls = []\<rparr>"

section \<open>Asynchronous code that may throw\<close>

text \<open>
  An \<open>async\<close> method is a function from the store to its outcome (\<open>Inl\<close> the
  exception thrown, \<open>Inr\<close> the value returned) and the store it leaves behind. A
  write made before the exception stays.
\<close>

type_synonym 'a io = "db \<Rightarrow> (exn + 'a) \<times> db"

definition ret :: "'a \<Rightarrow> 'a io" where
  "ret x d = (Inr x, d)"

definition throw :: "exn \<Rightarrow> 'a io" where
  "throw e d = (Inl e, d)"

definition bind :: "'a io \<Rightarrow> ('a \<Rightarrow> 'b io) \<Rightarrow> 'b io" where
  "bind m f d = (case m d of (Inl e, d') \<Rightarrow> (Inl e, d') | (Inr x, d') \<Rightarrow> f x d')"

text \<open>\<open>try { m } catch (error) { h error }\<close>: whatever \<open>m\<close> throws is handed to \<open>h\<close>.\<close>

definition try_catch :: "'a io \<Rightarrow> (exn \<Rightarrow> 'a io) \<Rightarrow> 'a io" where
  "try_catch m h d = (case m d of (Inl e, d') \<Rightarrow> h e d' | (Inr x, d') \<Rightarrow> (Inr x, d'))"

definition logq :: "query \<Rightarrow> db \<Rightarrow> db" where
  "logq c d = d\<lparr>calls := calls d @ [c]\<rparr>"

section \<open>The persistence layer\<close>

text \<open>
  The Prisma delegates, as far as the services call them. Failures are the ones of the
  schema: no row for the key of an update or delete (\<open>P2025\<close>), a unique index
  (\<open>P2002\<close>), a foreign key (\<open>P2003\<close>), a counter leaving the range of
  \<open>INTEGER\<close>, a required argument left out. A sequence value taken by an insert that
  the store then rejects is not given back. Texts are taken to fit their columns.
\<close>

definition int4 :: "int \<Rightarrow> bool" where
  "int4 n = (- 2147483648 \<le> n \<and> n \<le> 2147483647)"

text \<open>
  \<open>CreatedAt\<close> and \<open>Date\<close> are \<open>DATE\<close> columns. Of the instant written
  (milliseconds since the epoch, as \<open>getTime()\<close> counts them) the store keeps the
  calendar day, and a row read back carries the instant at which that day begins (UTC).
\<close>

definition date_of_instant :: "int \<Rightarrow> int" where
  "date_of_instant t = (t div 86400000) * 86400000"

definition has_user :: "db \<Rightarrow> int \<Rightarrow> bool" where
  "has_user d i = (find (\<lambda>u. u_UserID u = i) (users d) \<noteq> None)"

definition has_topic :: "db \<Rightarrow> int \<Rightarrow> bool" where
  "has_topic d i = (find (\<lambda>t. t_TopicID t = i) (topics d) \<noteq> None)"

definition has_question :: "db \<Rightarrow> int \<Rightarrow> bool" where
  "has_question d i = (find (\<lambda>t. q_QuestionID t = i) (questions d) \<noteq> None)"

definition has_event :: "db \<Rightarrow> int \<Rightarrow> bool" where
  "has_event d i = (find (\<lambda>t. e_EventID t = i) (events d) \<noteq> None)"

definition has_reply :: "db \<Rightarrow> int \<Rightarrow> bool" where
  "has_reply d i = (find (\<lambda>t. r_ReplyID t = i) (replies d) \<noteq> None)"

subsection \<open>User\<close>

definition users_findUnique_Email :: "string \<Rightarrow> user option io" where
  "users_findUnique_Email e d = (Inr (find (\<lambda>u. u_Email u = e) (users d)), logq (FindUnique User) d)"

definition users_findUnique_UserID :: "int \<Rightarrow> user option io" where
  "users_findUnique_UserID i d = (Inr (find (\<lambda>u. u_UserID u = i) (users d)), logq (FindUnique User) d)"

text \<open>The payload of a signup as it arrives: any field may be absent.\<close>

record CreateUserDto =
  FirstName :: "string option"
  LastName :: "string option"
  Email :: "string option"
  Password :: "string option"

definition users_create :: "CreateUserDto \<Rightarrow> user io" where
  "users_create data d =
     (let d1 = logq (Create User) d in
      case (FirstName data, LastName data, Email data, Password data) of
        (Some fn, Some ln, Some em, Some pw) \<Rightarrow>
          (let d2 = d1\<lparr>seq_User := seq_User d1 + 1\<rparr> in
           if find (\<lambda>u. u_Email u = em) (users d2) \<noteq> None
             then (Inl (PrismaError ''P2002''), d2)
           else (let row = \<lparr>u_UserID = seq_User d2, u_FirstName = fn, u_LastName = ln,
                             u_Email = em, u_Password = pw\<rparr>
                 in (Inr row, d2\<lparr>users := users d2 @ [row]\<rparr>)))
      | _ \<Rightarrow> (Inl (PrismaError ''validation''), d1))"

text \<open>Every foreign key on \<open>User\<close> is \<open>ON DELETE RESTRICT\<close>.\<close>

definition user_referenced :: "db \<Rightarrow> int \<Rightarrow> bool" where
  "user_referenced d i =
     (list_ex (\<lambda>r. s_UserID r = i) (saved d) \<or> list_ex (\<lambda>r. l_UserID r = i) (likes d) \<or>
      list_ex (\<lambda>r. e_CreatorID r = i) (events d) \<or> list_ex (\<lambda>r. t_CreatorID r = i) (topics d) \<or>
      list_ex (\<lambda>r. q_CreatorID r = i) (questions d) \<or> list_ex (\<lambda>r. r_CreatorID r = i) (replies d))"

definition users_delete :: "int \<Rightarrow> unit io" where
  "users_delete i d =
     (let d1 = logq (Delete User) d in
      if \<not> has_user d1 i then (Inl (PrismaError ''P2025''), d1)
      else if user_referenced d1 i then (Inl (PrismaError ''P2003''), d1)
      else (Inr (), d1\<lparr>users := filter (\<lambda>u. u_UserID u \<noteq> i) (users d1)\<rparr>))"

subsection \<open>Likes\<close>

text \<open>
  \<open>likes.create\<close> with the data the services pass: the user and at most one target.
  The unique indexes pair each target column with \<open>UserID\<close>; a \<open>NULL\<close> target
  never collides.
\<close>

definition like_collides :: "int \<Rightarrow> int option \<Rightarrow> int option \<Rightarrow> int option \<Rightarrow> int option \<Rightarrow> likes \<Rightarrow> bool" where
  "like_collides u ev tp qu rp r =
     (l_UserID r = u \<and>
      ((ev \<noteq> None \<and> l_EventID r = ev) \<or> (tp \<noteq> None \<and> l_TopicID r = tp) \<or>
       (qu \<noteq> None \<and> l_QuestionID r = qu) \<or> (rp \<noteq> None \<and> l_ReplyID r = rp)))"

definition like_refs_ok :: "db \<Rightarrow> int \<Rightarrow> int option \<Rightarrow> int option \<Rightarrow> int option \<Rightarrow> int option \<Rightarrow> bool" where
  "like_refs_ok d u ev tp qu rp =
     (has_user d u \<and>
      (case ev of None \<Rightarrow> True | Some i \<Rightarrow> has_event d i) \<and>
      (case tp of None \<Rightarrow> True | Some i \<Rightarrow> has_topic d i) \<and>
      (case qu of None \<Rightarrow> True | Some i \<Rightarrow> has_question d i) \<and>
      (case rp of None \<Rightarrow> True | Some i \<Rightarrow> has_reply d i))"

definition likes_create :: "int \<Rightarrow> int option \<Rightarrow> int option \<Rightarrow> int option \<Rightarrow> int option \<Rightarrow> likes io" where
  "likes_create u ev tp qu rp d =
     (let d1 = logq (Create Likes) d;
          d2 = d1\<lparr>seq_Likes := seq_Likes d1 + 1\<rparr>;
          row = \<lparr>l_LikeID = seq_Likes d2, l_UserID = u, l_EventID = ev, l_TopicID = tp,
                 l_QuestionID = qu, l_ReplyID = rp\<rparr>
      in if list_ex (like_collides u ev tp qu rp) (likes d2) then (Inl (PrismaError ''P2002''), d2)
         else if \<not> like_refs_ok d2 u ev tp qu rp then (Inl (PrismaError ''P2003''), d2)
         else (Inr row, d2\<lparr>likes := likes d2 @ [row]\<rparr>))"

text \<open>
  \<open>likes.delete\<close> by one of the compound unique keys \<open>X_UserID\<close>; \<open>col\<close> is the
  target column of the key.
\<close>

definition likes_delete :: "(likes \<Rightarrow> int option) \<Rightarrow> int \<Rightarrow> int \<Rightarrow> unit io" where
  "likes_delete col i u d =
     (let d1 = logq (Delete Likes) d in
      if \<not> list_ex (\<lambda>r. col r = Some i \<and> l_UserID r = u) (likes d1)
        then (Inl (PrismaError ''P2025''), d1)
      else (Inr (), d1\<lparr>likes := filter (\<lambda>r. \<not> (col r = Some i \<and> l_UserID r = u)) (likes d1)\<rparr>))"

text \<open>\<open>ON DELETE SET NULL\<close>: what the deletion of a parent row does to the rows naming it.\<close>

definition null_if :: "int \<Rightarrow> int option \<Rightarrow> int option" where
  "null_if i c = (if c = Some i then None else c)"

subsection \<open>Topics\<close>

definition topics_findUnique :: "int \<Rightarrow> topics option io" where
  "topics_findUnique i d = (Inr (find (\<lambda>t. t_TopicID t = i) (topics d)), logq (FindUnique Topics) d)"

text \<open>\<open>update\<close> with \<open>LikesNb: {increment: 1}\<close> (\<open>delta = 1\<close>) or \<open>{decrement: 1}\<close> (\<open>delta = -1\<close>).\<close>

definition topics_update_LikesNb :: "int \<Rightarrow> int \<Rightarrow> unit io" where
  "topics_update_LikesNb i delta d =
     (let d1 = logq (Update Topics) d in
      case find (\<lambda>t. t_TopicID t = i) (topics d1) of
        None \<Rightarrow> (Inl (PrismaError ''P2025''), d1)
      | Some t \<Rightarrow>
          if \<not> int4 (t_LikesNb t + delta) then (Inl (PrismaError ''P2020''), d1)
          else (Inr (), d1\<lparr>topics :=
                  map (\<lambda>t. if t_TopicID t = i then t\<lparr>t_LikesNb := t_LikesNb t + delta\<rparr> else t)
                    (topics d1)\<rparr>))"

definition topics_create :: "string \<Rightarrow> string \<Rightarrow> int \<Rightarrow> int \<Rightarrow> topics io" where
  "topics_create title content createdAt creator d =
     (let d1 = logq (Create Topics) d;
          d2 = d1\<lparr>seq_Topics := seq_Topics d1 + 1\<rparr>;
          row = \<lparr>t_TopicID = seq_Topics d2, t_Title = title, t_Content = content,
                 t_CreatedAt = date_of_instant createdAt, t_CreatorID = creator,
                 t_LikesNb = 0\<rparr>
      in if \<not> has_user d2 creator then (Inl (PrismaError ''P2003''), d2)
         else (Inr row, d2\<lparr>topics := topics d2 @ [row]\<rparr>))"

definition topics_delete :: "int \<Rightarrow> unit io" where
  "topics_delete i d =
     (let d1 = logq (Delete Topics) d in
      if \<not> has_topic d1 i then (Inl (PrismaError ''P2025''), d1)
      else (Inr (), d1\<lparr>topics := filter (\<lambda>t. t_TopicID t \<noteq> i) (topics d1),
                         saved := map (\<lambda>r. r\<lparr>s_TopicID := null_if i (s_TopicID r)\<rparr>) (saved d1),
                         likes := map (\<lambda>r. r\<lparr>l_TopicID := null_if i (l_TopicID r)\<rparr>) (likes d1),
                         replies := map (\<lambda>r. r\<lparr>r_TopicID := null_if i (r_TopicID r)\<rparr>) (replies d1)\<rparr>))"

subsection \<open>Questions\<close>

definition questions_findUnique :: "int \<Rightarrow> questions option io" where
  "questions_findUnique i d =
     (Inr (find (\<lambda>t. q_QuestionID t = i) (questions d)), logq (FindUnique Questions) d)"

definition questions_update_LikesNb :: "int \<Rightarrow> int \<Rightarrow> unit io" where
  "questions_update_LikesNb i delta d =
     (let d1 = logq (Update Questions) d in
      case find (\<lambda>t. q_QuestionID t = i) (questions d1) of
        None \<Rightarrow> (Inl (PrismaError ''P2025''), d1)
      | Some t \<Rightarrow>
          if \<not> int4 (q_LikesNb t + delta) then (Inl (PrismaError ''P2020''), d1)
          else (Inr (), d1\<lparr>questions :=
                  map (\<lambda>t. if q_QuestionID t = i then t\<lparr>q_LikesNb := q_LikesNb t + delta\<rparr> else t)
                    (questions d1)\<rparr>))"

definition questions_create :: "string \<Rightarrow> string \<Rightarrow> int \<Rightarrow> int \<Rightarrow> questions io" where
  "questions_create title content createdAt creator d =
     (let d1 = logq (Create Questions) d;
          d2 = d1\<lparr>seq_Questions := seq_Questions d1 + 1\<rparr>;
          row = \<lparr>q_QuestionID = seq_Questions d2, q_Title = title, q_Content = content,
                 q_CreatedAt = date_of_instant createdAt, q_CreatorID = creator,
                 q_LikesNb = 0\<rparr>
      in if \<not> has_user d2 creator then (Inl (PrismaError ''P2003''), d2)
         else (Inr row, d2\<lparr>questions := questions d2 @ [row]\<rparr>))"

definition questions_delete :: "int \<Rightarrow> unit io" where
  "questions_delete i d =
     (let d1 = logq (Delete Questions) d in
      if \<not> has_question d1 i then (Inl (PrismaError ''P2025''), d1)
      else (Inr (), d1\<lparr>questions := filter (\<lambda>t. q_QuestionID t \<noteq> i) (questions d1),
                         saved := map (\<lambda>r. r\<lparr>s_QuestionID := null_if i (s_QuestionID r)\<rparr>) (saved d1),
                         likes := map (\<lambda>r. r\<lparr>l_QuestionID := null_if i (l_QuestionID r)\<rparr>) (likes d1),
                         replies := map (\<lambda>r. r\<lparr>r_QuestionID := null_if i (r_QuestionID r)\<rparr>) (replies d1)\<rparr>))"

subsection \<open>Events\<close>

definition events_findUnique :: "int \<Rightarrow> events option io" where
  "events_findUnique i d = (Inr (find (\<lambda>t. e_EventID t = i) (events d)), logq (FindUnique Events) d)"

definition events_update_LikesNB :: "int \<Rightarrow> int \<Rightarrow> unit io" where
  "events_update_LikesNB i delta d =
     (let d1 = logq (Update Events) d in
      case find (\<lambda>t. e_EventID t = i) (events d1) of
        None \<Rightarrow> (Inl (PrismaError ''P2025''), d1)
      | Some t \<Rightarrow>
          if \<not> int4 (e_LikesNB t + delta) then (Inl (PrismaError ''P2020''), d1)
          else (Inr (), d1\<lparr>events :=
                  map (\<lambda>t. if e_EventID t = i then t\<lparr>e_LikesNB := e_LikesNB t + delta\<rparr> else t)
                    (events d1)\<rparr>))"

definition events_create :: "string \<Rightarrow> string \<Rightarrow> int \<Rightarrow> int \<Rightarrow> string \<Rightarrow> events io" where
  "events_create title description date creator location d =
     (let d1 = logq (Create Events) d;
          d2 = d1\<lparr>seq_Events := seq_Events d1 + 1\<rparr>;
          row = \<lparr>e_EventID = seq_Events d2, e_Title = title, e_Description = description,
                 e_Date = date_of_instant date, e_Location = location, e_CreatorID = creator,
                 e_LikesNB = 0\<rparr>
      in if \<not> has_user d2 creator then (Inl (PrismaError ''P2003''), d2)
         else (Inr row, d2\<lparr>events := events d2 @ [row]\<rparr>))"

definition events_delete :: "int \<Rightarrow> unit io" where
  "events_delete i d =
     (let d1 = logq (Delete Events) d in
      if \<not> has_event d1 i then (Inl (PrismaError ''P2025''), d1)
      else (Inr (), d1\<lparr>events := filter (\<lambda>t. e_EventID t \<noteq> i) (events d1),
                         saved := map (\<lambda>r. r\<lparr>s_EventID := null_if i (s_EventID r)\<rparr>) (saved d1),
                         likes := map (\<lambda>r. r\<lparr>l_EventID := null_if i (l_EventID r)\<rparr>) (likes d1)\<rparr>))"

subsection \<open>Replies\<close>

definition replies_findUnique :: "int \<Rightarrow> replies option io" where
  "replies_findUnique i d = (Inr (find (\<lambda>t. r_ReplyID t = i) (replies d)), logq (FindUnique Replies) d)"

definition replies_findMany_TopicID :: "int \<Rightarrow> replies list io" where
  "replies_findMany_TopicID i d =
     (Inr (filter (\<lambda>r. r_TopicID r = Some i) (replies d)), logq (FindMany Replies) d)"

definition replies_findMany_QuestionID :: "int \<Rightarrow> replies list io" where
  "replies_findMany_QuestionID i d =
     (Inr (filter (\<lambda>r. r_QuestionID r = Some i) (replies d)), logq (FindMany Replies) d)"

definition replies_update_LikesNB :: "int \<Rightarrow> int \<Rightarrow> unit io" where
  "replies_update_LikesNB i delta d =
     (let d1 = logq (Update Replies) d in
      case find (\<lambda>t. r_ReplyID t = i) (replies d1) of
        None \<Rightarrow> (Inl (PrismaError ''P2025''), d1)
      | Some t \<Rightarrow>
          if \<not> int4 (r_LikesNB t + delta) then (Inl (PrismaError ''P2020''), d1)
          else (Inr (), d1\<lparr>replies :=
                  map (\<lambda>t. if r_ReplyID t = i then t\<lparr>r_LikesNB := r_LikesNB t + delta\<rparr> else t)
                    (replies d1)\<rparr>))"

text \<open>\<open>update\<close> with \<open>data: {Content}\<close>; an absent \<open>Content\<close> leaves the column as it is.\<close>

definition replies_update_Content :: "int \<Rightarrow> string option \<Rightarrow> replies io" where
  "replies_update_Content i content d =
     (let d1 = logq (Update Replies) d;
          upd = (\<lambda>t. case content of None \<Rightarrow> t | Some c \<Rightarrow> t\<lparr>r_Content := c\<rparr>)
      in case find (\<lambda>t. r_ReplyID t = i) (replies d1) of
           None \<Rightarrow> (Inl (PrismaError ''P2025''), d1)
         | Some t \<Rightarrow>
             (Inr (upd t), d1\<lparr>replies := map (\<lambda>t. if r_ReplyID t = i then upd t else t) (replies d1)\<rparr>))"

definition replies_create :: "int option \<Rightarrow> int option \<Rightarrow> string \<Rightarrow> int \<Rightarrow> int \<Rightarrow> replies io" where
  "replies_create topicID questionID content createdAt creator d =
     (let d1 = logq (Create Replies) d;
          d2 = d1\<lparr>seq_Replies := seq_Replies d1 + 1\<rparr>;
          row = \<lparr>r_ReplyID = seq_Replies d2, r_Content = content,
                 r_CreatedAt = date_of_instant createdAt, r_CreatorID = creator,
                 r_QuestionID = questionID, r_TopicID = topicID, r_LikesNB = 0\<rparr>
      in if \<not> has_user d2 creator
            \<or> (case topicID of None \<Rightarrow> False | Some i \<Rightarrow> \<not> has_topic d2 i)
            \<or> (case questionID of None \<Rightarrow> False | Some i \<Rightarrow> \<not> has_question d2 i)
           then (Inl (PrismaError ''P2003''), d2)
         else (Inr row, d2\<lparr>replies := replies d2 @ [row]\<rparr>))"

definition replies_delete :: "int \<Rightarrow> unit io" where
  "replies_delete i d =
     (let d1 = logq (Delete Replies) d in
      if \<not> has_reply d1 i then (Inl (PrismaError ''P2025''), d1)
      else (Inr (), d1\<lparr>replies := filter (\<lambda>t. r_ReplyID t \<noteq> i) (replies d1),
                         likes := map (\<lambda>r. r\<lparr>l_ReplyID := null_if i (l_ReplyID r)\<rparr>) (likes d1)\<rparr>))"

subsection \<open>Reads with a text filter\<close>

text \<open>
  \<open>where: {Title: {contains: search, mode: 'insensitive'}}\<close> is the store's test
  \<open>Title ILIKE '%search%'\<close>. \<open>ilike text pattern\<close> is that operator: how it reads
  the pattern (the search text arrives in it as it was typed, its \<open>%\<close> and \<open>_\<close>
  included) and how it folds letter case is the store's affair. The rows matching are
  given here in table order.
\<close>

definition topics_findMany_Title ::
  "(string \<Rightarrow> string \<Rightarrow> bool) \<Rightarrow> string \<Rightarrow> topics list io" where
  "topics_findMany_Title ilike search d =
     (Inr (filter (\<lambda>t. ilike (t_Title t) (''%'' @ search @ ''%'')) (topics d)),
      logq (FindMany Topics) d)"

definition questions_findMany_Title ::
  "(string \<Rightarrow> string \<Rightarrow> bool) \<Rightarrow> string \<Rightarrow> questions list io" where
  "questions_findMany_Title ilike search d =
     (Inr (filter (\<lambda>t. ilike (q_Title t) (''%'' @ search @ ''%'')) (questions d)),
      logq (FindMany Questions) d)"

definition events_findMany_Title ::
  "(string \<Rightarrow> string \<Rightarrow> bool) \<Rightarrow> string \<Rightarrow> events list io" where
  "events_findMany_Title ilike search d =
     (Inr (filter (\<lambda>t. ilike (e_Title t) (''%'' @ search @ ''%'')) (events d)),
      logq (FindMany Events) d)"

section \<open>Array.prototype.sort\<close>

text \<open>
  \<open>xs.sort(cmp)\<close>: \<open>a\<close> comes before \<open>b\<close> when \<open>cmp(a, b) < 0\<close>, after it when
  \<open>cmp(a, b) > 0\<close>, and elements that compare equal keep their order (the sort is
  stable).
\<close>

fun js_insert :: "('a \<Rightarrow> 'a \<Rightarrow> int) \<Rightarrow> 'a \<Rightarrow> 'a list \<Rightarrow> 'a list" where
  "js_insert cmp x [] = [x]"
| "js_insert cmp x (y # ys) = (if cmp x y \<le> 0 then x # y # ys else y # js_insert cmp x ys)"

definition js_sort :: "('a \<Rightarrow> 'a \<Rightarrow> int) \<Rightarrow> 'a list \<Rightarrow> 'a list" where
  "js_sort cmp xs = foldr (js_insert cmp) xs []"

text \<open>The type \<open>'all' | 'popular' | 'recent' | 'name' | 'old'\<close> of the services' \<open>q\<close>.\<close>

datatype filter_mode = Q_all | Q_popular | Q_recent | Q_name | Q_old

section \<open>auth.service.ts\<close>

text \<open>
  \<open>hash\<close> and \<open>compare\<close> are bcrypt's; \<open>compare\<close> may throw (\<open>None\<close>).
\<close>

definition signup :: "(string \<Rightarrow> string) \<Rightarrow> CreateUserDto \<Rightarrow> user io" where
  "signup hash userData =
     (case Email userData of
        None \<Rightarrow> throw (BadRequestException ''Missing Data'')
      | Some em \<Rightarrow>
          if em = [] then throw (BadRequestException ''Missing Data'')
          else (case Password userData of
             None \<Rightarrow> throw (BadRequestException ''Missing Data'')
           | Some pw \<Rightarrow>
               if pw = [] then throw (BadRequestException ''Missing Data'')
               else bind (users_findUnique_Email em) (\<lambda>userEmail.
                 case userEmail of
                   Some _ \<Rightarrow> throw (UnauthorizedException ''Email exists'')
                 | None \<Rightarrow>
                     \<comment> \<open>the promise of \<open>create\<close> is returned without \<open>await\<close>: its rejection
                         passes the \<open>catch\<close> block by\<close>
                     users_create (userData\<lparr>Password := Some (hash pw)\<rparr>))))"

record jwt_claims =
  sub :: int
  email :: string

record sign_options =
  expiresIn :: int

record login_result =
  cookie :: string
  findUser :: user

text \<open>
  \<open>now\<close> is \<open>Date.now()\<close> at the call and \<open>JWT_DURATION\<close> the integer that
  \<open>parseInt(process.env.JWT_DURATION)\<close> reads.
\<close>

definition login ::
  "(string \<Rightarrow> string \<Rightarrow> bool option) \<Rightarrow> (jwt_claims \<Rightarrow> sign_options \<Rightarrow> string) \<Rightarrow>
   int \<Rightarrow> int \<Rightarrow> string option \<Rightarrow> string option \<Rightarrow> login_result io" where
  "login compare signAsync now JWT_DURATION Email' Password' =
     (case Email' of
        None \<Rightarrow> throw (BadRequestException ''Missing Data'')
      | Some em \<Rightarrow>
          if em = [] then throw (BadRequestException ''Missing Data'')
          else (case Password' of
             None \<Rightarrow> throw (BadRequestException ''Missing Data'')
           | Some pw \<Rightarrow>
               if pw = [] then throw (BadRequestException ''Missing Data'')
               else bind (users_findUnique_Email em) (\<lambda>user.
                 case user of
                   None \<Rightarrow> throw (NotFoundException ''User does not exist'')
                 | Some u \<Rightarrow>
                     (case compare pw (u_Password u) of
                        None \<Rightarrow> throw (InternalServerErrorException ''Internal Server Error'')
                      | Some correct \<Rightarrow>
                          if \<not> correct
                            then throw (UnauthorizedException ''Cannot login with these credentials'')
                          else (let payload = \<lparr>sub = u_UserID u, email = u_Email u\<rparr> in
                            ret \<lparr>cookie = signAsync payload \<lparr>expiresIn = now + JWT_DURATION\<rparr>,
                                 findUser = u\<rparr>)))))"

definition deleteUser :: "int \<Rightarrow> unit io" where
  "deleteUser UserID =
     try_catch
       (bind (users_findUnique_UserID UserID) (\<lambda>user.
          case user of
            None \<Rightarrow> throw (NotFoundException ''User not found'')
          | Some _ \<Rightarrow> users_delete UserID))
       (\<lambda>error. throw (InternalServerErrorException ''Internal Server Error''))"

section \<open>token.middleware.ts\<close>

text \<open>\<open>s.split(c)\<close> for a separator of one character.\<close>

fun js_split :: "char \<Rightarrow> string \<Rightarrow> string list" where
  "js_split c [] = [[]]"
| "js_split c (x # xs) =
     (if x = c then [] # js_split c xs
      else (case js_split c xs of [] \<Rightarrow> [[x]] | w # ws \<Rightarrow> (x # w) # ws))"

text \<open>\<open>xs[i]\<close> of a JavaScript array: \<open>undefined\<close> out of range.\<close>

fun js_index :: "'a list \<Rightarrow> nat \<Rightarrow> 'a option" where
  "js_index [] i = None"
| "js_index (x # xs) 0 = Some x"
| "js_index (x # xs) (Suc i) = js_index xs i"

text \<open>\<open>authHeader && authHeader.split(' ')[1]\<close>, and whether the result is truthy.\<close>

definition bearer_token :: "string option \<Rightarrow> string option" where
  "bearer_token authHeader =
     (case authHeader of
        None \<Rightarrow> None
      | Some h \<Rightarrow> if h = [] then None
                  else (case js_index (js_split CHR '' '' h) 1 of
                          None \<Rightarrow> None
                        | Some t \<Rightarrow> if t = [] then None else Some t))"

text \<open>
  The middleware: \<open>verify\<close> is the JWT service's check of signature and expiry
  (\<open>None\<close> when it throws); the value returned is the user attached to the request.
\<close>

definition use :: "(string \<Rightarrow> jwt_claims option) \<Rightarrow> string option \<Rightarrow> user io" where
  "use verify authorization =
     (case bearer_token authorization of
        None \<Rightarrow> throw (UnauthorizedException ''No token provided'')
      | Some token \<Rightarrow>
          try_catch
            (case verify token of
               None \<Rightarrow> throw JsonWebTokenError
             | Some claims \<Rightarrow>
                 bind (users_findUnique_UserID (sub claims)) (\<lambda>user.
                   case user of
                     None \<Rightarrow> throw (UnauthorizedException ''User does not exist.'')
                   | Some u \<Rightarrow> ret u))
            (\<lambda>err. throw (UnauthorizedException ''Invalid token'')))"

section \<open>discussions.service.ts\<close>

definition likeTopic :: "int \<Rightarrow> int \<Rightarrow> unit io" where
  "likeTopic TopicID UserID =
     try_catch
       (bind (topics_update_LikesNb TopicID 1) (\<lambda>_.
        bind (likes_create UserID None (Some TopicID) None None) (\<lambda>_. ret ())))
       (\<lambda>error. throw (InternalServerErrorException ''Internal Server Error''))"

definition unlikeTopic :: "int \<Rightarrow> int \<Rightarrow> unit io" where
  "unlikeTopic TopicID UserID =
     try_catch
       (bind (topics_update_LikesNb TopicID (- 1)) (\<lambda>_.
        likes_delete l_TopicID TopicID UserID))
       (\<lambda>error. throw (InternalServerErrorException ''Internal Server Error''))"

text \<open>
  \<open>findMany\<close> is the call \<open>this.topics.findMany\<close> with the filter on the title:
  which rows it returns and in which order (there is no \<open>orderBy\<close>) is the store's
  answer, and the call may fail. \<open>localeCompare\<close> is the platform's collation of two
  strings. The same holds of the \<open>filtered\<close> operations of the other services.
\<close>

definition DiscussionsService_filtered ::
  "(string \<Rightarrow> topics list io) \<Rightarrow> (string \<Rightarrow> string \<Rightarrow> int) \<Rightarrow> filter_mode \<Rightarrow> string \<Rightarrow>
   topics list io" where
  "DiscussionsService_filtered findMany localeCompare q search =
     try_catch
       (bind (findMany search) (\<lambda>alltopics.
          ret (case q of
                 Q_all \<Rightarrow> alltopics
               | Q_popular \<Rightarrow> js_sort (\<lambda>a b. t_LikesNb b - t_LikesNb a) alltopics
               | Q_recent \<Rightarrow> js_sort (\<lambda>a b. t_CreatedAt b - t_CreatedAt a) alltopics
               | Q_name \<Rightarrow> js_sort (\<lambda>a b. localeCompare (t_Title a) (t_Title b)) alltopics
               | Q_old \<Rightarrow> js_sort (\<lambda>a b. t_CreatedAt a - t_CreatedAt b) alltopics)))
       (\<lambda>error. throw (InternalServerErrorException ''Internal Server Error''))"

text \<open>
  A creation payload as it arrives: a field may be absent; \<open>CreatedAt\<close> is the instant
  its text denotes. \<open>!x\<close> holds of an absent field, of the empty text and of the number 0.
\<close>

record CreateTopicDto =
  ct_Title :: "string option"
  ct_Content :: "string option"
  ct_CreatedAt :: "int option"
  ct_CreatorID :: "int option"

text \<open>
  The promise of \<open>create\<close> is returned from inside \<open>try\<close> without \<open>await\<close>, so the
  \<open>catch\<close> block never sees its rejection.
\<close>

definition DiscussionsService_create :: "CreateTopicDto \<Rightarrow> topics io" where
  "DiscussionsService_create createTopicDto =
     (case (ct_CreatedAt createTopicDto, ct_CreatorID createTopicDto,
            ct_Title createTopicDto, ct_Content createTopicDto) of
        (Some createdAt, Some creator, Some title, Some content) \<Rightarrow>
          if creator = 0 \<or> title = [] \<or> content = []
            then throw (BadRequestException ''Missing Data'')
          else topics_create title content createdAt creator
      | _ \<Rightarrow> throw (BadRequestException ''Missing Data''))"

definition DiscussionsService_delete :: "int \<Rightarrow> unit io" where
  "DiscussionsService_delete TopicID =
     try_catch
       (bind (topics_findUnique TopicID) (\<lambda>topic.
          case topic of
            None \<Rightarrow> throw (NotFoundException ''Topic not found'')
          | Some _ \<Rightarrow> topics_delete TopicID))
       (\<lambda>error. throw (InternalServerErrorException ''Internal Server Error''))"

section \<open>questions.service.ts\<close>

definition likeQuestion :: "int \<Rightarrow> int \<Rightarrow> unit io" where
  "likeQuestion QuestionID UserID =
     try_catch
       (bind (questions_update_LikesNb QuestionID 1) (\<lambda>_.
        bind (likes_create UserID None None (Some QuestionID) None) (\<lambda>_. ret ())))
       (\<lambda>error. throw (InternalServerErrorException ''Internal Server Error''))"

definition unlikeQuestion :: "int \<Rightarrow> int \<Rightarrow> unit io" where
  "unlikeQuestion QuestionID UserID =
     try_catch
       (bind (questions_update_LikesNb QuestionID (- 1)) (\<lambda>_.
        likes_delete l_QuestionID QuestionID UserID))
       (\<lambda>error. throw (InternalServerErrorException ''Internal Server Error''))"

definition QuestionsService_filtered ::
  "(string \<Rightarrow> questions list io) \<Rightarrow> (string \<Rightarrow> string \<Rightarrow> int) \<Rightarrow> filter_mode \<Rightarrow> string \<Rightarrow>
   questions list io" where
  "QuestionsService_filtered findMany localeCompare q search =
     try_catch
       (bind (findMany search) (\<lambda>allquestions.
          ret (case q of
                 Q_all \<Rightarrow> allquestions
               | Q_popular \<Rightarrow> js_sort (\<lambda>a b. q_LikesNb b - q_LikesNb a) allquestions
               | Q_recent \<Rightarrow> js_sort (\<lambda>a b. q_CreatedAt b - q_CreatedAt a) allquestions
               | Q_name \<Rightarrow> js_sort (\<lambda>a b. localeCompare (q_Title a) (q_Title b)) allquestions
               | Q_old \<Rightarrow> js_sort (\<lambda>a b. q_CreatedAt a - q_CreatedAt b) allquestions)))
       (\<lambda>error. throw (InternalServerErrorException ''Internal Server Error''))"

record CreateQuestionDto =
  cq_Title :: "string option"
  cq_Content :: "string option"
  cq_CreatedAt :: "int option"
  cq_CreatorID :: "int option"

definition QuestionsService_create :: "CreateQuestionDto \<Rightarrow> questions io" where
  "QuestionsService_create createQuestionDto =
     (case (cq_CreatedAt createQuestionDto, cq_CreatorID createQuestionDto,
            cq_Title createQuestionDto, cq_Content createQuestionDto) of
        (Some createdAt, Some creator, Some title, Some content) \<Rightarrow>
          if creator = 0 \<or> title = [] \<or> content = []
            then throw (BadRequestException ''Missing Data'')
          else questions_create title content createdAt creator
      | _ \<Rightarrow> throw (BadRequestException ''Missing Data''))"

definition QuestionsService_delete :: "int \<Rightarrow> unit io" where
  "QuestionsService_delete QuestionID =
     try_catch
       (bind (questions_findUnique QuestionID) (\<lambda>question.
          case question of
            None \<Rightarrow> throw (NotFoundException ''Question not found'')
          | Some _ \<Rightarrow> questions_delete QuestionID))
       (\<lambda>error. throw (InternalServerErrorException ''Internal Server Error''))"

section \<open>events.service.ts\<close>

definition likeEvent :: "int \<Rightarrow> int \<Rightarrow> unit io" where
  "likeEvent EventID UserID =
     try_catch
       (bind (events_update_LikesNB EventID 1) (\<lambda>_.
        bind (likes_create UserID (Some EventID) None None None) (\<lambda>_. ret ())))
       (\<lambda>error. throw (InternalServerErrorException ''Internal Server Error''))"

definition unlikeEvent :: "int \<Rightarrow> int \<Rightarrow> unit io" where
  "unlikeEvent EventID UserID =
     try_catch
       (bind (events_update_LikesNB EventID (- 1)) (\<lambda>_.
        likes_delete l_EventID EventID UserID))
       (\<lambda>error. throw (InternalServerErrorException ''Internal Server Error''))"

definition EventsService_filtered ::
  "(string \<Rightarrow> events list io) \<Rightarrow> (string \<Rightarrow> string \<Rightarrow> int) \<Rightarrow> filter_mode \<Rightarrow> string \<Rightarrow>
   events list io" where
  "EventsService_filtered findMany localeCompare q search =
     try_catch
       (bind (findMany search) (\<lambda>allevents.
          ret (case q of
                 Q_all \<Rightarrow> allevents
               | Q_popular \<Rightarrow> js_sort (\<lambda>a b. e_LikesNB b - e_LikesNB a) allevents
               | Q_recent \<Rightarrow> js_sort (\<lambda>a b. e_Date b - e_Date a) allevents
               | Q_name \<Rightarrow> js_sort (\<lambda>a b. localeCompare (e_Title a) (e_Title b)) allevents
               | Q_old \<Rightarrow> js_sort (\<lambda>a b. e_Date a - e_Date b) allevents)))
       (\<lambda>error. throw (InternalServerErrorException ''Internal Server Error''))"

record CreateEventDto =
  ce_Title :: "string option"
  ce_Description :: "string option"
  ce_Date :: "int option"
  ce_Location :: "string option"
  ce_CreatorID :: "int option"

definition EventsService_create :: "CreateEventDto \<Rightarrow> events io" where
  "EventsService_create createEventDto =
     (case (ce_Date createEventDto, ce_CreatorID createEventDto, ce_Title createEventDto,
            ce_Description createEventDto, ce_Location createEventDto) of
        (Some date, Some creator, Some title, Some description, Some location) \<Rightarrow>
          if creator = 0 \<or> title = [] \<or> description = [] \<or> location = []
            then throw (BadRequestException ''Missing Data'')
          else events_create title description date creator location
      | _ \<Rightarrow> throw (BadRequestException ''Missing Data''))"

definition EventsService_delete :: "int \<Rightarrow> unit io" where
  "EventsService_delete EventID =
     try_catch
       (bind (events_findUnique EventID) (\<lambda>event.
          case event of
            None \<Rightarrow> throw (NotFoundException ''Event not found'')
          | Some _ \<Rightarrow> events_delete EventID))
       (\<lambda>error. throw (InternalServerErrorException ''Internal Server Error''))"

section \<open>replies.service.ts\<close>

definition likeReply :: "int \<Rightarrow> int \<Rightarrow> unit io" where
  "likeReply ReplyID UserID =
     try_catch
       (bind (replies_update_LikesNB ReplyID 1) (\<lambda>_.
        bind (likes_create UserID None None None (Some ReplyID)) (\<lambda>_. ret ())))
       (\<lambda>error. throw (InternalServerErrorException ''Internal Server Error''))"

definition unlikeReply :: "int \<Rightarrow> int \<Rightarrow> unit io" where
  "unlikeReply ReplyID UserID =
     try_catch
       (bind (replies_update_LikesNB ReplyID (- 1)) (\<lambda>_.
        likes_delete l_ReplyID ReplyID UserID))
       (\<lambda>error. throw (InternalServerErrorException ''Internal Server Error''))"

definition filteredForQuestion ::
  "(int \<Rightarrow> replies list io) \<Rightarrow> (string \<Rightarrow> string \<Rightarrow> int) \<Rightarrow> filter_mode \<Rightarrow> int \<Rightarrow>
   replies list io" where
  "filteredForQuestion findMany localeCompare q QuestionID =
     try_catch
       (bind (findMany QuestionID) (\<lambda>allReplies.
          ret (case q of
                 Q_all \<Rightarrow> allReplies
               | Q_popular \<Rightarrow> js_sort (\<lambda>a b. r_LikesNB b - r_LikesNB a) allReplies
               | Q_recent \<Rightarrow> js_sort (\<lambda>a b. r_CreatedAt b - r_CreatedAt a) allReplies
               | Q_name \<Rightarrow> js_sort (\<lambda>a b. localeCompare (r_Content a) (r_Content b)) allReplies
               | Q_old \<Rightarrow> js_sort (\<lambda>a b. r_CreatedAt a - r_CreatedAt b) allReplies)))
       (\<lambda>error. throw (InternalServerErrorException ''Internal Server Error''))"

definition filteredForTopic ::
  "(int \<Rightarrow> replies list io) \<Rightarrow> (string \<Rightarrow> string \<Rightarrow> int) \<Rightarrow> filter_mode \<Rightarrow> int \<Rightarrow>
   replies list io" where
  "filteredForTopic findMany localeCompare q TopicID =
     try_catch
       (bind (findMany TopicID) (\<lambda>allReplies.
          ret (case q of
                 Q_all \<Rightarrow> allReplies
               | Q_popular \<Rightarrow> js_sort (\<lambda>a b. r_LikesNB b - r_LikesNB a) allReplies
               | Q_recent \<Rightarrow> js_sort (\<lambda>a b. r_CreatedAt b - r_CreatedAt a) allReplies
               | Q_name \<Rightarrow> js_sort (\<lambda>a b. localeCompare (r_Content a) (r_Content b)) allReplies
               | Q_old \<Rightarrow> js_sort (\<lambda>a b. r_CreatedAt a - r_CreatedAt b) allReplies)))
       (\<lambda>error. throw (InternalServerErrorException ''Internal Server Error''))"

record CreateReplyDto =
  cr_Content :: "string option"
  cr_CreatedAt :: "int option"
  cr_CreatorID :: "int option"
  cr_TargetID :: "int option"

definition createForTopic :: "CreateReplyDto \<Rightarrow> replies io" where
  "createForTopic createReplyDto =
     (case (cr_CreatedAt createReplyDto, cr_CreatorID createReplyDto,
            cr_Content createReplyDto, cr_TargetID createReplyDto) of
        (Some createdAt, Some creator, Some content, Some target) \<Rightarrow>
          if creator = 0 \<or> content = [] \<or> target = 0
            then throw (BadRequestException ''Missing Data'')
          else replies_create (Some target) None content createdAt creator
      | _ \<Rightarrow> throw (BadRequestException ''Missing Data''))"

definition createForQuestion :: "CreateReplyDto \<Rightarrow> replies io" where
  "createForQuestion createReplyDto =
     (case (cr_CreatedAt createReplyDto, cr_CreatorID createReplyDto,
            cr_Content createReplyDto, cr_TargetID createReplyDto) of
        (Some createdAt, Some creator, Some content, Some target) \<Rightarrow>
          if creator = 0 \<or> content = [] \<or> target = 0
            then throw (BadRequestException ''Missing Data'')
          else replies_create None (Some target) content createdAt creator
      | _ \<Rightarrow> throw (BadRequestException ''Missing Data''))"

definition RepliesService_delete :: "int \<Rightarrow> unit io" where
  "RepliesService_delete ReplyID =
     try_catch
       (bind (replies_findUnique ReplyID) (\<lambda>reply.
          case reply of
            None \<Rightarrow> throw (NotFoundException ''Reply not found'')
          | Some _ \<Rightarrow> replies_delete ReplyID))
       (\<lambda>error. throw (InternalServerErrorException ''Internal Server Error''))"

record UpdateReplyDto =
  ur_ReplyID :: int
  ur_Content :: "string option"

text \<open>
  The lookup and its \<open>NotFoundException\<close> are inside \<open>try\<close>; the promise of
  \<open>update\<close> is returned without \<open>await\<close> and so leaves the block before it settles.
\<close>

definition updateReply :: "UpdateReplyDto \<Rightarrow> replies io" where
  "updateReply editDto =
     bind
       (try_catch
          (bind (replies_findUnique (ur_ReplyID editDto)) (\<lambda>reply.
             case reply of
               None \<Rightarrow> throw (NotFoundException ''Reply not found'')
             | Some _ \<Rightarrow> ret ()))
          (\<lambda>error. throw (InternalServerErrorException ''Internal Server Error'')))
       (\<lambda>_. replies_update_Content (ur_ReplyID editDto) (ur_Content editDto))"

section \<open>The controllers' filter endpoints\<close>

text \<open>
  \<open>@Query('q')\<close> and \<open>@Query('search')\<close> are absent (\<open>None\<close>) or a text.
  \<open>String(search)\<close> of an absent parameter is the text \<open>undefined\<close>.
\<close>

definition js_String :: "string option \<Rightarrow> string" where
  "js_String x = (case x of None \<Rightarrow> ''undefined'' | Some s \<Rightarrow> s)"

text \<open>
  The test \<open>q === 'all' || q === 'popular' || q === 'recent' || q === 'name' || q === 'old'\<close>
  every filter endpoint makes, with the value of the union type that \<open>q\<close> then is.
\<close>

definition filter_mode_of :: "string option \<Rightarrow> filter_mode option" where
  "filter_mode_of q =
     (if q = Some ''all'' then Some Q_all
      else if q = Some ''popular'' then Some Q_popular
      else if q = Some ''recent'' then Some Q_recent
      else if q = Some ''name'' then Some Q_name
      else if q = Some ''old'' then Some Q_old
      else None)"

definition QuestionsController_filtered ::
  "(string \<Rightarrow> questions list io) \<Rightarrow> (string \<Rightarrow> string \<Rightarrow> int) \<Rightarrow> string option \<Rightarrow>
   string option \<Rightarrow> questions list io" where
  "QuestionsController_filtered findMany localeCompare q search =
     (case filter_mode_of q of
        Some mode \<Rightarrow> QuestionsService_filtered findMany localeCompare mode (js_String search)
      | None \<Rightarrow> throw (BadRequestException ''Invalid Query Parameter''))"

definition DiscussionsController_filtered ::
  "(string \<Rightarrow> topics list io) \<Rightarrow> (string \<Rightarrow> string \<Rightarrow> int) \<Rightarrow> string option \<Rightarrow>
   string option \<Rightarrow> topics list io" where
  "DiscussionsController_filtered findMany localeCompare q search =
     (case filter_mode_of q of
        Some mode \<Rightarrow> DiscussionsService_filtered findMany localeCompare mode (js_String search)
      | None \<Rightarrow> throw (BadRequestException ''Invalid Query Parameter''))"

definition EventsController_filtered ::
  "(string \<Rightarrow> events list io) \<Rightarrow> (string \<Rightarrow> string \<Rightarrow> int) \<Rightarrow> string option \<Rightarrow>
   string option \<Rightarrow> events list io" where
  "EventsController_filtered findMany localeCompare q search =
     (case filter_mode_of q of
        Some mode \<Rightarrow> EventsService_filtered findMany localeCompare mode (js_String search)
      | None \<Rightarrow> throw (BadRequestException ''Invalid Query Parameter''))"

definition RepliesController_filteredForTopic ::
  "(int \<Rightarrow> replies list io) \<Rightarrow> (string \<Rightarrow> string \<Rightarrow> int) \<Rightarrow> string option \<Rightarrow> int \<Rightarrow>
   replies list io" where
  "RepliesController_filteredForTopic findMany localeCompare q TopicID =
     (case filter_mode_of q of
        Some mode \<Rightarrow> filteredForTopic findMany localeCompare mode TopicID
      | None \<Rightarrow> throw (BadRequestException ''Invalid Query Parameter''))"

definition RepliesController_filteredForQuestion ::
  "(int \<Rightarrow> replies list io) \<Rightarrow> (string \<Rightarrow> string \<Rightarrow> int) \<Rightarrow> string option \<Rightarrow> int \<Rightarrow>
   replies list io" where
  "RepliesController_filteredForQuestion findMany localeCompare q QuestionID =
     (case filter_mode_of q of
        Some mode \<Rightarrow> filteredForQuestion findMany localeCompare mode QuestionID
      | None \<Rightarrow> throw (BadRequestException ''Invalid Query Parameter''))"

section \<open>Reachable stores\<close>

text \<open>
  The stores the services above can produce, from the empty tables of a fresh
  migration, whatever each call returns or throws. The filter operations make their
  reads of the store's tables.
\<close>

inductive reachable :: "db \<Rightarrow> bool" where
  r_init: "reachable empty_db"
| r_signup: "reachable d \<Longrightarrow> reachable (snd (signup hash userData d))"
| r_login: "reachable d \<Longrightarrow> reachable (snd (login compare signAsync now dur em pw d))"
| r_deleteUser: "reachable d \<Longrightarrow> reachable (snd (deleteUser i d))"
| r_use: "reachable d \<Longrightarrow> reachable (snd (use verify authorization d))"
| r_likeTopic: "reachable d \<Longrightarrow> reachable (snd (likeTopic i u d))"
| r_unlikeTopic: "reachable d \<Longrightarrow> reachable (snd (unlikeTopic i u d))"
| r_filteredTopics:
    "reachable d \<Longrightarrow>
     reachable (snd (DiscussionsService_filtered (topics_findMany_Title ilike) lc q s d))"
| r_createTopic: "reachable d \<Longrightarrow> reachable (snd (DiscussionsService_create ct d))"
| r_deleteTopic: "reachable d \<Longrightarrow> reachable (snd (DiscussionsService_delete i d))"
| r_likeQuestion: "reachable d \<Longrightarrow> reachable (snd (likeQuestion i u d))"
| r_unlikeQuestion: "reachable d \<Longrightarrow> reachable (snd (unlikeQuestion i u d))"
| r_filteredQuestions:
    "reachable d \<Longrightarrow>
     reachable (snd (QuestionsService_filtered (questions_findMany_Title ilike) lc q s d))"
| r_createQuestion: "reachable d \<Longrightarrow> reachable (snd (QuestionsService_create cq d))"
| r_deleteQuestion: "reachable d \<Longrightarrow> reachable (snd (QuestionsService_delete i d))"
| r_likeEvent: "reachable d \<Longrightarrow> reachable (snd (likeEvent i u d))"
| r_unlikeEvent: "reachable d \<Longrightarrow> reachable (snd (unlikeEvent i u d))"
| r_filteredEvents:
    "reachable d \<Longrightarrow>
     reachable (snd (EventsService_filtered (events_findMany_Title ilike) lc q s d))"
| r_createEvent: "reachable d \<Longrightarrow> reachable (snd (EventsService_create ce d))"
| r_deleteEvent: "reachable d \<Longrightarrow> reachable (snd (EventsService_delete i d))"
| r_likeReply: "reachable d \<Longrightarrow> reachable (snd (likeReply i u d))"
| r_unlikeReply: "reachable d \<Longrightarrow> reachable (snd (unlikeReply i u d))"
| r_filteredForQuestion:
    "reachable d \<Longrightarrow> reachable (snd (filteredForQuestion replies_findMany_QuestionID lc q i d))"
| r_filteredForTopic:
    "reachable d \<Longrightarrow> reachable (snd (filteredForTopic replies_findMany_TopicID lc q i d))"
| r_createForTopic: "reachable d \<Longrightarrow> reachable (snd (createForTopic cr d))"
| r_createForQuestion: "reachable d \<Longrightarrow> reachable (snd (createForQuestion cr d))"
| r_deleteReply: "reachable d \<Longrightarrow> reachable (snd (RepliesService_delete i d))"
| r_updateReply: "reachable d \<Longrightarrow> reachable (snd (updateReply ur d))"

section \<open>Example stores\<close>

text \<open>
  For the concrete runs below, an \<open>ILIKE\<close> and a collation to run them with, and
  stores built through the services.

  \<open>ilike_ascii\<close> reads a pattern as PostgreSQL does (\<open>%\<close> any run of characters,
  \<open>_\<close> any one character, a backslash taking the next character literally) and
  folds the case of the ASCII letters. \<open>compare_code_units\<close> orders two texts by
  their first differing character, a prefix before its extensions.
\<close>

definition to_lower :: "char \<Rightarrow> char" where
  "to_lower c =
     (case map_of (zip ''ABCDEFGHIJKLMNOPQRSTUVWXYZ'' ''abcdefghijklmnopqrstuvwxyz'') c of
        None \<Rightarrow> c
      | Some l \<Rightarrow> l)"

fun like_match :: "string \<Rightarrow> string \<Rightarrow> bool" where
  "like_match [] t = (t = [])"
| "like_match (p # ps) [] = (p = CHR ''%'' \<and> like_match ps [])"
| "like_match (p # ps) (c # cs) =
     (if p = CHR ''%'' then like_match ps (c # cs) \<or> like_match (p # ps) cs
      else if p = CHR ''_'' then like_match ps cs
      else if p = CHR 0x5C then (case ps of [] \<Rightarrow> False | q # qs \<Rightarrow> c = q \<and> like_match qs cs)
      else c = p \<and> like_match ps cs)"

definition ilike_ascii :: "string \<Rightarrow> string \<Rightarrow> bool" where
  "ilike_ascii text pattern = like_match (map to_lower pattern) (map to_lower text)"

fun compare_code_units :: "string \<Rightarrow> string \<Rightarrow> int" where
  "compare_code_units [] [] = 0"
| "compare_code_units [] (y # ys) = - 1"
| "compare_code_units (x # xs) [] = 1"
| "compare_code_units (x # xs) (y # ys) =
     (if (of_char x :: nat) < of_char y then - 1
      else if (of_char y :: nat) < of_char x then 1
      else compare_code_units xs ys)"

text \<open>
  Two users. A topic of the first user, liked by the second; a second topic created a
  second after the first. A reply of the second user to the topic, and the store after
  the topic has been deleted; a question and a reply to it, and the stores after the
  topic, or else the question, has been deleted then; then two more replies to the
  topic and two more to the question, the later ones liked.
\<close>

definition store_users :: db where
  "store_users =
     snd (signup (\<lambda>p. ''hash:'' @ p)
            \<lparr>FirstName = Some ''Bob'', LastName = Some ''B'', Email = Some ''bob@x.org'',
             Password = Some ''pw2''\<rparr>
       (snd (signup (\<lambda>p. ''hash:'' @ p)
            \<lparr>FirstName = Some ''Alice'', LastName = Some ''A'', Email = Some ''alice@x.org'',
             Password = Some ''pw1''\<rparr>
          empty_db)))"

definition store_topic :: db where
  "store_topic =
     snd (DiscussionsService_create
            \<lparr>ct_Title = Some ''T'', ct_Content = Some ''C'', ct_CreatedAt = Some 1000,
             ct_CreatorID = Some 1\<rparr>
            store_users)"

definition store_liked :: db where
  "store_liked = snd (likeTopic 1 2 store_topic)"


definition store_reply :: db where
  "store_reply =
     snd (createForTopic
            \<lparr>cr_Content = Some ''R'', cr_CreatedAt = Some 2000, cr_CreatorID = Some 2,
             cr_TargetID = Some 1\<rparr>
            store_topic)"

definition store_orphan :: db where
  "store_orphan = snd (DiscussionsService_delete 1 store_reply)"

definition store_question :: db where
  "store_question =
     snd (QuestionsService_create
            \<lparr>cq_Title = Some ''Q'', cq_Content = Some ''C'', cq_CreatedAt = Some 3000,
             cq_CreatorID = Some 2\<rparr>
            store_reply)"

definition store_answer :: db where
  "store_answer =
     snd (createForQuestion
            \<lparr>cr_Content = Some ''M'', cr_CreatedAt = Some 172801000, cr_CreatorID = Some 1,
             cr_TargetID = Some 1\<rparr>
            store_question)"

definition store_answered :: db where
  "store_answered = snd (DiscussionsService_delete 1 store_answer)"

definition store_unasked :: db where
  "store_unasked = snd (QuestionsService_delete 1 store_answer)"






text \<open>The rows that these stores are shown below to hold.\<close>

definition topic_T :: topics where
  "topic_T = \<lparr>t_TopicID = 1, t_Title = ''T'', t_Content = ''C'', t_CreatedAt = 0,
     t_CreatorID = 1, t_LikesNb = 0\<rparr>"

definition topic_U :: topics where
  "topic_U = \<lparr>t_TopicID = 2, t_Title = ''U'', t_Content = ''C'', t_CreatedAt = 0,
     t_CreatorID = 2, t_LikesNb = 0\<rparr>"

definition topic_Zoo :: topics where
  "topic_Zoo = \<lparr>t_TopicID = 1, t_Title = ''Zoo'', t_Content = ''c1'', t_CreatedAt = 0,
     t_CreatorID = 2, t_LikesNb = 0\<rparr>"

definition topic_Tea :: topics where
  "topic_Tea = \<lparr>t_TopicID = 2, t_Title = ''Tea'', t_Content = ''c2'', t_CreatedAt = 259200000,
     t_CreatorID = 1, t_LikesNb = 0\<rparr>"

definition topic_apple :: topics where
  "topic_apple = \<lparr>t_TopicID = 3, t_Title = ''apple'', t_Content = ''c3'', t_CreatedAt = 86400000,
     t_CreatorID = 2, t_LikesNb = 1\<rparr>"

definition topic_Melon :: topics where
  "topic_Melon = \<lparr>t_TopicID = 4, t_Title = ''Melon'', t_Content = ''c4'', t_CreatedAt = 172800000,
     t_CreatorID = 1, t_LikesNb = 2\<rparr>"

definition question_Q :: questions where
  "question_Q = \<lparr>q_QuestionID = 1, q_Title = ''Q'', q_Content = ''C'', q_CreatedAt = 0,
     q_CreatorID = 2, q_LikesNb = 0\<rparr>"

definition question_Why :: questions where
  "question_Why = \<lparr>q_QuestionID = 1, q_Title = ''Why'', q_Content = ''c1'',
     q_CreatedAt = 172800000, q_CreatorID = 1, q_LikesNb = 0\<rparr>"

definition question_How :: questions where
  "question_How = \<lparr>q_QuestionID = 2, q_Title = ''How'', q_Content = ''c2'',
     q_CreatedAt = 259200000, q_CreatorID = 2, q_LikesNb = 1\<rparr>"

definition question_What :: questions where
  "question_What = \<lparr>q_QuestionID = 3, q_Title = ''What'', q_Content = ''c3'',
     q_CreatedAt = 86400000, q_CreatorID = 1, q_LikesNb = 2\<rparr>"

definition event_Gala :: events where
  "event_Gala = \<lparr>e_EventID = 1, e_Title = ''Gala'', e_Description = ''Winter gala'',
     e_Date = 172800000, e_Location = ''Hall'', e_CreatorID = 1, e_LikesNB = 0\<rparr>"

definition event_Fair :: events where
  "event_Fair = \<lparr>e_EventID = 2, e_Title = ''Fair'', e_Description = ''Spring fair'',
     e_Date = 259200000, e_Location = ''Square'', e_CreatorID = 1, e_LikesNB = 2\<rparr>"

definition event_Ball :: events where
  "event_Ball = \<lparr>e_EventID = 3, e_Title = ''Ball'', e_Description = ''Summer ball'',
     e_Date = 86400000, e_Location = ''Pier'', e_CreatorID = 2, e_LikesNB = 1\<rparr>"

definition reply_R :: replies where
  "reply_R = \<lparr>r_ReplyID = 1, r_Content = ''R'', r_CreatedAt = 0, r_CreatorID = 2,
     r_QuestionID = None, r_TopicID = Some 1, r_LikesNB = 0\<rparr>"

definition reply_M :: replies where
  "reply_M = \<lparr>r_ReplyID = 2, r_Content = ''M'', r_CreatedAt = 172800000, r_CreatorID = 1,
     r_QuestionID = Some 1, r_TopicID = None, r_LikesNB = 0\<rparr>"

definition reply_Z :: replies where
  "reply_Z = \<lparr>r_ReplyID = 3, r_Content = ''Z'', r_CreatedAt = 259200000, r_CreatorID = 2,
     r_QuestionID = None, r_TopicID = Some 1, r_LikesNB = 1\<rparr>"

definition reply_B :: replies where
  "reply_B = \<lparr>r_ReplyID = 4, r_Content = ''B'', r_CreatedAt = 86400000, r_CreatorID = 1,
     r_QuestionID = None, r_TopicID = Some 1, r_LikesNB = 2\<rparr>"

definition reply_x :: replies where
  "reply_x = \<lparr>r_ReplyID = 5, r_Content = ''x'', r_CreatedAt = 259200000, r_CreatorID = 2,
     r_QuestionID = Some 1, r_TopicID = None, r_LikesNB = 2\<rparr>"

definition reply_c :: replies where
  "reply_c = \<lparr>r_ReplyID = 6, r_Content = ''c'', r_CreatedAt = 86400000, r_CreatorID = 1,
     r_QuestionID = Some 1, r_TopicID = None, r_LikesNB = 1\<rparr>"

section \<open>Properties\<close>

lemmas io_defs = ret_def throw_def bind_def try_catch_def

lemmas prim_defs = logq_def Let_def has_user_def has_topic_def has_question_def has_event_def
  has_reply_def

lemmas eval_defs = io_defs prim_defs int4_def like_refs_ok_def like_collides_def empty_db_def
  date_of_instant_def

subsection \<open>The example stores, row by row\<close>

lemma store_users_eq:
  "store_users = empty_db
     \<lparr>users := [\<lparr>u_UserID = 1, u_FirstName = ''Alice'', u_LastName = ''A'',
                   u_Email = ''alice@x.org'', u_Password = ''hash:pw1''\<rparr>,
                 \<lparr>u_UserID = 2, u_FirstName = ''Bob'', u_LastName = ''B'',
                   u_Email = ''bob@x.org'', u_Password = ''hash:pw2''\<rparr>],
      seq_User := 2,
      calls := [FindUnique User, Create User, FindUnique User, Create User]\<rparr>"
  by (simp add: store_users_def signup_def users_findUnique_Email_def users_create_def eval_defs)

lemma store_topic_eq:
  "store_topic = store_users
     \<lparr>topics := [\<lparr>t_TopicID = 1, t_Title = ''T'', t_Content = ''C'', t_CreatedAt = 0,
                    t_CreatorID = 1, t_LikesNb = 0\<rparr>],
      seq_Topics := 1,
      calls := calls store_users @ [Create Topics]\<rparr>"
  by (simp add: store_topic_def store_users_eq DiscussionsService_create_def topics_create_def
      eval_defs)

lemma store_liked_eq:
  "store_liked = store_topic
     \<lparr>topics := [\<lparr>t_TopicID = 1, t_Title = ''T'', t_Content = ''C'', t_CreatedAt = 0,
                    t_CreatorID = 1, t_LikesNb = 1\<rparr>],
      likes := [\<lparr>l_LikeID = 1, l_UserID = 2, l_EventID = None, l_TopicID = Some 1,
                   l_QuestionID = None, l_ReplyID = None\<rparr>],
      seq_Likes := 1,
      calls := calls store_topic @ [Update Topics, Create Likes]\<rparr>"
  by (simp add: store_liked_def store_topic_eq store_users_eq likeTopic_def
      topics_update_LikesNb_def likes_create_def eval_defs)


lemma store_reply_eq:
  "store_reply = store_topic
     \<lparr>replies := [\<lparr>r_ReplyID = 1, r_Content = ''R'', r_CreatedAt = 0, r_CreatorID = 2,
                     r_QuestionID = None, r_TopicID = Some 1, r_LikesNB = 0\<rparr>],
      seq_Replies := 1,
      calls := calls store_topic @ [Create Replies]\<rparr>"
  by (simp add: store_reply_def store_topic_eq store_users_eq createForTopic_def replies_create_def
      eval_defs)

lemma store_question_eq:
  "store_question = store_reply
     \<lparr>questions := [\<lparr>q_QuestionID = 1, q_Title = ''Q'', q_Content = ''C'', q_CreatedAt = 0,
                       q_CreatorID = 2, q_LikesNb = 0\<rparr>],
      seq_Questions := 1,
      calls := calls store_reply @ [Create Questions]\<rparr>"
  by (simp add: store_question_def store_reply_eq store_topic_eq store_users_eq
      QuestionsService_create_def questions_create_def eval_defs)

lemma store_answer_eq:
  "store_answer = store_question
     \<lparr>replies := [\<lparr>r_ReplyID = 1, r_Content = ''R'', r_CreatedAt = 0, r_CreatorID = 2,
                     r_QuestionID = None, r_TopicID = Some 1, r_LikesNB = 0\<rparr>,
                   \<lparr>r_ReplyID = 2, r_Content = ''M'', r_CreatedAt = 172800000, r_CreatorID = 1,
                     r_QuestionID = Some 1, r_TopicID = None, r_LikesNB = 0\<rparr>],
      seq_Replies := 2,
      calls := calls store_question @ [Create Replies]\<rparr>"
  by (simp add: store_answer_def store_question_eq store_reply_eq store_topic_eq store_users_eq
      createForQuestion_def replies_create_def eval_defs)

lemmas row_defs = topic_T_def topic_U_def topic_Zoo_def topic_Tea_def topic_apple_def
  topic_Melon_def question_Q_def question_Why_def question_How_def question_What_def
  event_Gala_def event_Fair_def event_Ball_def reply_R_def reply_M_def reply_Z_def reply_B_def
  reply_x_def reply_c_def







lemma reachable_store_reply: "reachable store_reply"
  unfolding store_reply_def store_topic_def store_users_def
  by (intro reachable.intros)

lemma reachable_store_question: "reachable store_question"
  unfolding store_question_def by (rule r_createQuestion [OF reachable_store_reply])

lemma reachable_store_answer: "reachable store_answer"
  unfolding store_answer_def by (rule r_createForQuestion [OF reachable_store_question])

subsection \<open>Deleting a row that is not there\<close>

text \<open>
  Each \<open>delete\<close> looks the row up and throws \<open>NotFoundException\<close> when there is
  none, but it does so inside the \<open>try\<close> block whose \<open>catch\<close> turns every exception
  into \<open>InternalServerErrorException\<close>; only the lookup has reached the store by then.
\<close>

lemma DiscussionsService_delete_missing:
  "\<not> has_topic d i \<Longrightarrow>
   DiscussionsService_delete i d =
     (Inl (InternalServerErrorException ''Internal Server Error''), logq (FindUnique Topics) d)"
  by (simp add: DiscussionsService_delete_def io_defs topics_findUnique_def has_topic_def)

lemma QuestionsService_delete_missing:
  "\<not> has_question d i \<Longrightarrow>
   QuestionsService_delete i d =
     (Inl (InternalServerErrorException ''Internal Server Error''), logq (FindUnique Questions) d)"
  by (simp add: QuestionsService_delete_def io_defs questions_findUnique_def has_question_def)

lemma EventsService_delete_missing:
  "\<not> has_event d i \<Longrightarrow>
   EventsService_delete i d =
     (Inl (InternalServerErrorException ''Internal Server Error''), logq (FindUnique Events) d)"
  by (simp add: EventsService_delete_def io_defs events_findUnique_def has_event_def)

lemma RepliesService_delete_missing:
  "\<not> has_reply d i \<Longrightarrow>
   RepliesService_delete i d =
     (Inl (InternalServerErrorException ''Internal Server Error''), logq (FindUnique Replies) d)"
  by (simp add: RepliesService_delete_def io_defs replies_findUnique_def has_reply_def)

lemma deleteUser_missing:
  "\<not> has_user d i \<Longrightarrow>
   deleteUser i d =
     (Inl (InternalServerErrorException ''Internal Server Error''), logq (FindUnique User) d)"
  by (simp add: deleteUser_def io_defs users_findUnique_UserID_def has_user_def)

text \<open>
  C1. Claimed: deleting an ID that is not in the store fails with NotFound, never with
  InternalError, for topics, questions, events, replies and users. The code answers
  otherwise: on a store without row 1, each of the five \<open>delete\<close> operations called
  with ID 1 ends in \<open>InternalServerErrorException\<close>.
\<close>

theorem delete_missing_id_is_internal_error:
  "fst (DiscussionsService_delete 1 empty_db) = Inl (InternalServerErrorException ''Internal Server Error'')
 \<and> fst (QuestionsService_delete 1 empty_db) = Inl (InternalServerErrorException ''Internal Server Error'')
 \<and> fst (EventsService_delete 1 empty_db) = Inl (InternalServerErrorException ''Internal Server Error'')
 \<and> fst (RepliesService_delete 1 empty_db) = Inl (InternalServerErrorException ''Internal Server Error'')
 \<and> fst (deleteUser 1 empty_db) = Inl (InternalServerErrorException ''Internal Server Error'')"
  by (simp add: DiscussionsService_delete_def QuestionsService_delete_def EventsService_delete_def
      RepliesService_delete_def deleteUser_def io_defs topics_findUnique_def questions_findUnique_def
      events_findUnique_def replies_findUnique_def users_findUnique_UserID_def empty_db_def)

subsection \<open>The authentication gate\<close>

text \<open>
  A token that verifies for a subject without a user record: the middleware throws
  \<open>UnauthorizedException('User does not exist.')\<close> inside its \<open>try\<close> block, and the
  \<open>catch\<close> replaces it.
\<close>

lemma use_unknown_subject:
  "bearer_token h = Some t \<Longrightarrow> verify t = Some c \<Longrightarrow> \<not> has_user d (sub c) \<Longrightarrow>
   fst (use verify h d) = Inl (UnauthorizedException ''Invalid token'')"
  by (simp add: use_def io_defs users_findUnique_UserID_def has_user_def)

text \<open>
  C3. Claimed: a bearer token that passes verification but whose subject resolves to no
  user fails with Unauthorized and the message "User does not exist". The code fails the
  request with Unauthorized, but the message that reaches the caller is "Invalid token":
  here for the header \<open>Bearer tok\<close>, a verifier accepting \<open>tok\<close> for subject 1, and a
  store without users.
\<close>

theorem use_unknown_subject_says_invalid_token:
  "fst (use (\<lambda>t. if t = ''tok'' then Some \<lparr>sub = 1, email = ''a@b.c''\<rparr> else None)
          (Some ''Bearer tok'') empty_db)
     = Inl (UnauthorizedException ''Invalid token'')"
  by (simp add: use_def bearer_token_def io_defs users_findUnique_UserID_def empty_db_def)

subsection \<open>Login and signup\<close>

text \<open>
  C4. A login without Email or Password (absent or empty) fails with BadRequest and
  leaves the store as it was, its record of round trips included: no lookup was made.
  With both present, an email that no user has fails with NotFound, and a user whose
  stored hash \<open>compare\<close> finds not to match fails with Unauthorized.
\<close>

theorem login_failures:
  "(Email' = None \<or> Email' = Some [] \<or> Password' = None \<or> Password' = Some [] \<longrightarrow>
      login compare signAsync now dur Email' Password' d
        = (Inl (BadRequestException ''Missing Data''), d))
 \<and> (Email' = Some em \<and> em \<noteq> [] \<and> Password' = Some pw \<and> pw \<noteq> [] \<and>
      find (\<lambda>u. u_Email u = em) (users d) = None \<longrightarrow>
      fst (login compare signAsync now dur Email' Password' d)
        = Inl (NotFoundException ''User does not exist''))
 \<and> (Email' = Some em \<and> em \<noteq> [] \<and> Password' = Some pw \<and> pw \<noteq> [] \<and>
      find (\<lambda>u. u_Email u = em) (users d) = Some u \<and> compare pw (u_Password u) = Some False \<longrightarrow>
      fst (login compare signAsync now dur Email' Password' d)
        = Inl (UnauthorizedException ''Cannot login with these credentials''))"
  by (auto simp add: login_def io_defs users_findUnique_Email_def split: option.splits)

theorem login_failures_witness:
  "login (\<lambda>p h. Some (p = h)) (\<lambda>c o'. ''jwt'') 1000 3600 None (Some ''pw'') empty_db
     = (Inl (BadRequestException ''Missing Data''), empty_db)
 \<and> fst (login (\<lambda>p h. Some (p = h)) (\<lambda>c o'. ''jwt'') 1000 3600 (Some ''a@b.c'') (Some ''pw'') empty_db)
     = Inl (NotFoundException ''User does not exist'')
 \<and> fst (login (\<lambda>p h. Some (p = h)) (\<lambda>c o'. ''jwt'') 1000 3600 (Some ''a@b.c'') (Some ''bad'')
        (empty_db\<lparr>users := [\<lparr>u_UserID = 1, u_FirstName = ''A'', u_LastName = ''B'',
                               u_Email = ''a@b.c'', u_Password = ''pw''\<rparr>]\<rparr>))
     = Inl (UnauthorizedException ''Cannot login with these credentials'')"
  using login_failures [where Email' = None and Password' = "Some ''pw''" and d = empty_db
          and compare = "\<lambda>p h. Some (p = h)" and signAsync = "\<lambda>c o'. ''jwt''"
          and now = 1000 and dur = 3600]
        login_failures [where Email' = "Some ''a@b.c''" and Password' = "Some ''pw''"
          and d = empty_db and em = "''a@b.c''" and pw = "''pw''"
          and compare = "\<lambda>p h. Some (p = h)" and signAsync = "\<lambda>c o'. ''jwt''"
          and now = 1000 and dur = 3600]
        login_failures [where Email' = "Some ''a@b.c''" and Password' = "Some ''bad''"
          and d = "empty_db\<lparr>users := [\<lparr>u_UserID = 1, u_FirstName = ''A'', u_LastName = ''B'',
                               u_Email = ''a@b.c'', u_Password = ''pw''\<rparr>]\<rparr>"
          and em = "''a@b.c''" and pw = "''bad''"
          and u = "\<lparr>u_UserID = 1, u_FirstName = ''A'', u_LastName = ''B'',
                               u_Email = ''a@b.c'', u_Password = ''pw''\<rparr>"
          and compare = "\<lambda>p h. Some (p = h)" and signAsync = "\<lambda>c o'. ''jwt''"
          and now = 1000 and dur = 3600]
  by (simp add: empty_db_def)

text \<open>
  C8. Whenever a login succeeds, the cookie is what \<open>signAsync\<close> returns for the
  payload holding the user's ID and email and for the option \<open>expiresIn = now + dur\<close>,
  the current time plus the configured duration; the user is the one the email names.
\<close>

theorem login_token:
  "fst (login compare signAsync now dur Email' Password' d) = Inr r \<Longrightarrow>
     cookie r = signAsync \<lparr>sub = u_UserID (findUser r), email = u_Email (findUser r)\<rparr>
                  \<lparr>expiresIn = now + dur\<rparr>
   \<and> find (\<lambda>u. Some (u_Email u) = Email') (users d) = Some (findUser r)"
  by (auto simp add: login_def io_defs users_findUnique_Email_def Let_def
      split: option.splits if_splits)

theorem login_token_witness:
  "fst (login (\<lambda>p h. Some (p = h))
          (\<lambda>c o'. if sub c = 1 \<and> email c = ''a@b.c'' \<and> expiresIn o' = 4600
                   then ''sub=1,email=a@b.c,expiresIn=4600'' else ''other'')
          1000 3600 (Some ''a@b.c'') (Some ''pw'')
          (empty_db\<lparr>users := [\<lparr>u_UserID = 1, u_FirstName = ''A'', u_LastName = ''B'',
                               u_Email = ''a@b.c'', u_Password = ''pw''\<rparr>]\<rparr>))
     = Inr \<lparr>cookie = ''sub=1,email=a@b.c,expiresIn=4600'',
            findUser = \<lparr>u_UserID = 1, u_FirstName = ''A'', u_LastName = ''B'',
                         u_Email = ''a@b.c'', u_Password = ''pw''\<rparr>\<rparr>"
proof -
  let ?sign = "\<lambda>c o'. if sub c = 1 \<and> email c = ''a@b.c'' \<and> expiresIn o' = (4600::int)
                       then ''sub=1,email=a@b.c,expiresIn=4600'' else ''other''"
  let ?u = "\<lparr>u_UserID = 1, u_FirstName = ''A'', u_LastName = ''B'', u_Email = ''a@b.c'',
             u_Password = ''pw''\<rparr>"
  let ?d = "empty_db\<lparr>users := [?u]\<rparr>"
  obtain r where r:
    "fst (login (\<lambda>p h. Some (p = h)) ?sign 1000 3600 (Some ''a@b.c'') (Some ''pw'') ?d) = Inr r"
    by (simp add: login_def io_defs users_findUnique_Email_def empty_db_def)
  from login_token [OF r]
  have "find (\<lambda>u. Some (u_Email u) = Some ''a@b.c'') (users ?d) = Some (findUser r)"
    by blast
  then have fu: "findUser r = ?u"
    by (simp add: empty_db_def)
  from login_token [OF r]
  have "cookie r = ?sign \<lparr>sub = u_UserID (findUser r), email = u_Email (findUser r)\<rparr>
                     \<lparr>expiresIn = 1000 + 3600\<rparr>"
    by blast
  with fu have "cookie r = ''sub=1,email=a@b.c,expiresIn=4600'' \<and> findUser r = ?u"
    by simp
  then have "r = \<lparr>cookie = ''sub=1,email=a@b.c,expiresIn=4600'', findUser = ?u\<rparr>"
    by (cases r) simp
  with r show ?thesis by simp
qed

text \<open>
  C10. A signup is answered with BadRequest exactly when Email or Password is absent or
  empty, and then with 'Missing Data' and an untouched store. With both present the
  first round trip to the store is the lookup of the email, whatever FirstName and
  LastName are.
\<close>

theorem signup_missing_data:
  "((\<exists>m. fst (signup hash userData d) = Inl (BadRequestException m)) \<longleftrightarrow>
      (Email userData = None \<or> Email userData = Some [] \<or>
       Password userData = None \<or> Password userData = Some []))
 \<and> (Email userData = None \<or> Email userData = Some [] \<or>
     Password userData = None \<or> Password userData = Some [] \<longrightarrow>
      signup hash userData d = (Inl (BadRequestException ''Missing Data''), d))
 \<and> (Email userData = Some em \<and> em \<noteq> [] \<and> Password userData = Some pw \<and> pw \<noteq> [] \<longrightarrow>
      (\<exists>rest. calls (snd (signup hash userData d)) = calls d @ FindUnique User # rest))"
  by (auto simp add: signup_def io_defs users_findUnique_Email_def users_create_def logq_def
      Let_def split: option.splits)

theorem signup_missing_data_witness:
  "signup (\<lambda>p. ''#'' @ p)
      \<lparr>FirstName = Some ''A'', LastName = Some ''B'', Email = Some ''a@b.c'', Password = None\<rparr>
      empty_db
     = (Inl (BadRequestException ''Missing Data''), empty_db)
 \<and> (\<exists>rest. calls (snd (signup (\<lambda>p. ''#'' @ p)
        \<lparr>FirstName = None, LastName = None, Email = Some ''a@b.c'', Password = Some ''pw''\<rparr>
        empty_db))
      = calls empty_db @ FindUnique User # rest)"
  using signup_missing_data [where userData = "\<lparr>FirstName = Some ''A'', LastName = Some ''B'',
            Email = Some ''a@b.c'', Password = None\<rparr>"
          and d = empty_db and hash = "\<lambda>p. ''#'' @ p"]
        signup_missing_data [where userData = "\<lparr>FirstName = None, LastName = None,
            Email = Some ''a@b.c'', Password = Some ''pw''\<rparr>"
          and d = empty_db and hash = "\<lambda>p. ''#'' @ p" and em = "''a@b.c''" and pw = "''pw''"]
  by simp

subsection \<open>Sorting\<close>











text \<open>
  What a filter operation answers when its read fails, and when it returns rows.
\<close>

lemma DiscussionsService_filtered_read_failed:
  "ft s d = (Inl e, d') \<Longrightarrow>
   DiscussionsService_filtered ft lc q s d = (Inl (InternalServerErrorException ''Internal Server Error''), d')"
  by (simp add: DiscussionsService_filtered_def io_defs)



lemma QuestionsService_filtered_read_failed:
  "fq s d = (Inl e, d') \<Longrightarrow>
   QuestionsService_filtered fq lc q s d = (Inl (InternalServerErrorException ''Internal Server Error''), d')"
  by (simp add: QuestionsService_filtered_def io_defs)



lemma EventsService_filtered_read_failed:
  "fe s d = (Inl e, d') \<Longrightarrow>
   EventsService_filtered fe lc q s d = (Inl (InternalServerErrorException ''Internal Server Error''), d')"
  by (simp add: EventsService_filtered_def io_defs)



lemma filteredForTopic_read_failed:
  "frt i d = (Inl e, d') \<Longrightarrow>
   filteredForTopic frt lc q i d = (Inl (InternalServerErrorException ''Internal Server Error''), d')"
  by (simp add: filteredForTopic_def io_defs)



lemma filteredForQuestion_read_failed:
  "frq i d = (Inl e, d') \<Longrightarrow>
   filteredForQuestion frq lc q i d = (Inl (InternalServerErrorException ''Internal Server Error''), d')"
  by (simp add: filteredForQuestion_def io_defs)


















text \<open>
  The search text is part of the pattern: its \<open>_\<close> and \<open>%\<close> are wildcards, and
  letter case is ignored.
\<close>

lemma search_wildcards:
  "topics_findMany_Title ilike_ascii ''_'' store_topic
     = (Inr [topic_T], logq (FindMany Topics) store_topic)
 \<and> topics_findMany_Title ilike_ascii ''%'' store_topic
     = (Inr [topic_T], logq (FindMany Topics) store_topic)
 \<and> topics_findMany_Title ilike_ascii ''t'' store_topic
     = (Inr [topic_T], logq (FindMany Topics) store_topic)
 \<and> topics_findMany_Title ilike_ascii ''__'' store_topic
     = (Inr [], logq (FindMany Topics) store_topic)
 \<and> topics_findMany_Title ilike_ascii ''u'' store_topic
     = (Inr [], logq (FindMany Topics) store_topic)"
  by (simp add: topics_findMany_Title_def store_topic_eq row_defs ilike_ascii_def to_lower_def)




subsection \<open>The query parameter of the filter endpoints\<close>

text \<open>A filter operation throws nothing but \<open>InternalServerErrorException\<close>.\<close>

lemma QuestionsService_filtered_throws:
  "fst (QuestionsService_filtered fq lc mode s d) \<noteq> Inl (BadRequestException m)"
  by (simp add: QuestionsService_filtered_def io_defs split: prod.splits sum.splits)

lemma DiscussionsService_filtered_throws:
  "fst (DiscussionsService_filtered ft lc mode s d) \<noteq> Inl (BadRequestException m)"
  by (simp add: DiscussionsService_filtered_def io_defs split: prod.splits sum.splits)

lemma EventsService_filtered_throws:
  "fst (EventsService_filtered fe lc mode s d) \<noteq> Inl (BadRequestException m)"
  by (simp add: EventsService_filtered_def io_defs split: prod.splits sum.splits)

lemma filteredForTopic_throws:
  "fst (filteredForTopic frt lc mode i d) \<noteq> Inl (BadRequestException m)"
  by (simp add: filteredForTopic_def io_defs split: prod.splits sum.splits)

lemma filteredForQuestion_throws:
  "fst (filteredForQuestion frq lc mode i d) \<noteq> Inl (BadRequestException m)"
  by (simp add: filteredForQuestion_def io_defs split: prod.splits sum.splits)

text \<open>
  C7. Each of the five filter endpoints answers with BadRequest exactly when \<open>q\<close> is
  none of \<open>all\<close>, \<open>popular\<close>, \<open>recent\<close>, \<open>name\<close>, \<open>old\<close> (an absent \<open>q\<close>
  included), and then without any round trip to the store; for each of the five values
  the answer is that of the service's filter operation for that mode. This holds
  whatever the reads of the store return.
\<close>

theorem filter_endpoints_q:
  "((\<exists>m. fst (QuestionsController_filtered fq lc q search d) = Inl (BadRequestException m)) \<longleftrightarrow>
      q \<notin> {Some ''all'', Some ''popular'', Some ''recent'', Some ''name'', Some ''old''})
 \<and> ((\<exists>m. fst (DiscussionsController_filtered ft lc q search d) = Inl (BadRequestException m)) \<longleftrightarrow>
      q \<notin> {Some ''all'', Some ''popular'', Some ''recent'', Some ''name'', Some ''old''})
 \<and> ((\<exists>m. fst (EventsController_filtered fe lc q search d) = Inl (BadRequestException m)) \<longleftrightarrow>
      q \<notin> {Some ''all'', Some ''popular'', Some ''recent'', Some ''name'', Some ''old''})
 \<and> ((\<exists>m. fst (RepliesController_filteredForTopic frt lc q i d) = Inl (BadRequestException m)) \<longleftrightarrow>
      q \<notin> {Some ''all'', Some ''popular'', Some ''recent'', Some ''name'', Some ''old''})
 \<and> ((\<exists>m. fst (RepliesController_filteredForQuestion frq lc q i d) = Inl (BadRequestException m)) \<longleftrightarrow>
      q \<notin> {Some ''all'', Some ''popular'', Some ''recent'', Some ''name'', Some ''old''})
 \<and> (q \<notin> {Some ''all'', Some ''popular'', Some ''recent'', Some ''name'', Some ''old''} \<longrightarrow>
      QuestionsController_filtered fq lc q search d = (Inl (BadRequestException ''Invalid Query Parameter''), d)
    \<and> DiscussionsController_filtered ft lc q search d = (Inl (BadRequestException ''Invalid Query Parameter''), d)
    \<and> EventsController_filtered fe lc q search d = (Inl (BadRequestException ''Invalid Query Parameter''), d)
    \<and> RepliesController_filteredForTopic frt lc q i d = (Inl (BadRequestException ''Invalid Query Parameter''), d)
    \<and> RepliesController_filteredForQuestion frq lc q i d = (Inl (BadRequestException ''Invalid Query Parameter''), d))
 \<and> ((q, mode) \<in> {(Some ''all'', Q_all), (Some ''popular'', Q_popular), (Some ''recent'', Q_recent),
                    (Some ''name'', Q_name), (Some ''old'', Q_old)} \<longrightarrow>
      QuestionsController_filtered fq lc q search d = QuestionsService_filtered fq lc mode (js_String search) d
    \<and> DiscussionsController_filtered ft lc q search d = DiscussionsService_filtered ft lc mode (js_String search) d
    \<and> EventsController_filtered fe lc q search d = EventsService_filtered fe lc mode (js_String search) d
    \<and> RepliesController_filteredForTopic frt lc q i d = filteredForTopic frt lc mode i d
    \<and> RepliesController_filteredForQuestion frq lc q i d = filteredForQuestion frq lc mode i d)"
  by (auto simp add: QuestionsController_filtered_def DiscussionsController_filtered_def
      EventsController_filtered_def RepliesController_filteredForTopic_def
      RepliesController_filteredForQuestion_def filter_mode_of_def throw_def
      QuestionsService_filtered_throws DiscussionsService_filtered_throws
      EventsService_filtered_throws filteredForTopic_throws filteredForQuestion_throws)

theorem filter_endpoints_q_witness:
  "DiscussionsController_filtered (topics_findMany_Title ilike_ascii) compare_code_units
     (Some ''newest'') (Some ''x'') store_topic
     = (Inl (BadRequestException ''Invalid Query Parameter''), store_topic)
 \<and> DiscussionsController_filtered (topics_findMany_Title ilike_ascii) compare_code_units
     None None store_topic
     = (Inl (BadRequestException ''Invalid Query Parameter''), store_topic)
 \<and> DiscussionsController_filtered (topics_findMany_Title ilike_ascii) compare_code_units
     (Some ''popular'') None store_topic
     = DiscussionsService_filtered (topics_findMany_Title ilike_ascii) compare_code_units
         Q_popular ''undefined'' store_topic"
  using filter_endpoints_q [where q = "Some ''newest''" and lc = compare_code_units
          and ft = "topics_findMany_Title ilike_ascii" and search = "Some ''x''"
          and d = store_topic]
        filter_endpoints_q [where q = None and lc = compare_code_units
          and ft = "topics_findMany_Title ilike_ascii" and search = None and d = store_topic]
        filter_endpoints_q [where q = "Some ''popular''" and mode = Q_popular
          and lc = compare_code_units and ft = "topics_findMany_Title ilike_ascii"
          and search = None and d = store_topic]
  by (simp add: js_String_def)

subsection \<open>Like and unlike\<close>

lemma filter_no_match: "\<not> list_ex P xs \<Longrightarrow> filter (\<lambda>r. \<not> P r) xs = xs"
  by (induction xs) auto

text \<open>Raising a counter by one and lowering it by one again gives the table back.\<close>

lemma map_inc_dec:
  fixes cnt :: "'a \<Rightarrow> int"
  assumes "\<And>x k. cnt (upd x k) = k" "\<And>x. upd x (cnt x) = x"
    "\<And>x k j. upd (upd x k) j = upd x j" "\<And>x k. P (upd x k) = P x"
  shows "map (\<lambda>x. if P x then upd x (cnt x + (- 1)) else x)
           (map (\<lambda>x. if P x then upd x (cnt x + 1) else x) xs) = xs"
  by (induction xs) (simp_all add: assms)

lemma likes_create_Inl:
  "likes_create u ev tp qu rp d = (Inl e, d2) \<Longrightarrow>
     d2 = (logq (Create Likes) d)\<lparr>seq_Likes := seq_Likes d + 1\<rparr>"
  by (auto simp add: likes_create_def prim_defs split: if_splits)

lemma likes_create_Inr:
  "likes_create u ev tp qu rp d = (Inr row, d2) \<Longrightarrow>
     row = \<lparr>l_LikeID = seq_Likes d + 1, l_UserID = u, l_EventID = ev, l_TopicID = tp,
            l_QuestionID = qu, l_ReplyID = rp\<rparr>
   \<and> d2 = (logq (Create Likes) d)\<lparr>seq_Likes := seq_Likes d + 1, likes := likes d @ [row]\<rparr>
   \<and> \<not> list_ex (like_collides u ev tp qu rp) (likes d)"
  by (auto simp add: likes_create_def prim_defs split: if_splits)

lemma likes_delete_Inr:
  "likes_delete col i u d = (Inr v, d2) \<Longrightarrow>
     d2 = (logq (Delete Likes) d)\<lparr>likes :=
            filter (\<lambda>r. \<not> (col r = Some i \<and> l_UserID r = u)) (likes d)\<rparr>"
  by (auto simp add: likes_delete_def prim_defs split: if_splits)

lemma likeTopic_outcome:
  "likeTopic t u d =
     (case topics_update_LikesNb t 1 d of
        (Inl e, d1) \<Rightarrow> (Inl (InternalServerErrorException ''Internal Server Error''), d1)
      | (Inr _, d1) \<Rightarrow>
          (case likes_create u None (Some t) None None d1 of
             (Inl e, d2) \<Rightarrow> (Inl (InternalServerErrorException ''Internal Server Error''), d2)
           | (Inr _, d2) \<Rightarrow> (Inr (), d2)))"
  by (simp add: likeTopic_def io_defs split: prod.splits sum.splits)

lemma unlikeTopic_outcome:
  "unlikeTopic t u d =
     (case topics_update_LikesNb t (- 1) d of
        (Inl e, d1) \<Rightarrow> (Inl (InternalServerErrorException ''Internal Server Error''), d1)
      | (Inr _, d1) \<Rightarrow>
          (case likes_delete l_TopicID t u d1 of
             (Inl e, d2) \<Rightarrow> (Inl (InternalServerErrorException ''Internal Server Error''), d2)
           | (Inr _, d2) \<Rightarrow> (Inr (), d2)))"
  by (simp add: unlikeTopic_def io_defs split: prod.splits sum.splits)

lemma topics_update_LikesNb_Inl:
  "topics_update_LikesNb t k d = (Inl e, d1) \<Longrightarrow> d1 = logq (Update Topics) d"
  by (auto simp add: topics_update_LikesNb_def prim_defs split: option.splits if_splits)

lemma topics_update_LikesNb_Inr:
  "topics_update_LikesNb t k d = (Inr v, d1) \<Longrightarrow>
     d1 = (logq (Update Topics) d)\<lparr>topics :=
            map (\<lambda>x. if t_TopicID x = t then x\<lparr>t_LikesNb := t_LikesNb x + k\<rparr> else x) (topics d)\<rparr>
     \<and> has_topic d t"
  by (auto simp add: topics_update_LikesNb_def prim_defs split: option.splits if_splits)

lemma likeTopic_steps:
  "(topics_update_LikesNb t 1 d = (Inl e, d1) \<longrightarrow>
      likeTopic t u d = (Inl (InternalServerErrorException ''Internal Server Error''), d1)
      \<and> topics d1 = topics d \<and> likes d1 = likes d \<and> calls d1 = calls d @ [Update Topics])
 \<and> (topics_update_LikesNb t 1 d = (Inr (), d1) \<and> likes_create u None (Some t) None None d1 = (Inl e, d2) \<longrightarrow>
      likeTopic t u d = (Inl (InternalServerErrorException ''Internal Server Error''), d2)
      \<and> has_topic d t
      \<and> topics d2 = map (\<lambda>x. if t_TopicID x = t then x\<lparr>t_LikesNb := t_LikesNb x + 1\<rparr> else x) (topics d)
      \<and> likes d2 = likes d
      \<and> calls d2 = calls d @ [Update Topics, Create Likes])
 \<and> (topics_update_LikesNb t 1 d = (Inr (), d1) \<and> likes_create u None (Some t) None None d1 = (Inr row, d2) \<longrightarrow>
      likeTopic t u d = (Inr (), d2)
      \<and> has_topic d t
      \<and> topics d2 = map (\<lambda>x. if t_TopicID x = t then x\<lparr>t_LikesNb := t_LikesNb x + 1\<rparr> else x) (topics d)
      \<and> likes d2 = likes d @ [row] \<and> l_TopicID row = Some t \<and> l_UserID row = u
      \<and> calls d2 = calls d @ [Update Topics, Create Likes])"
  by (auto simp add: likeTopic_outcome logq_def
      dest!: topics_update_LikesNb_Inl topics_update_LikesNb_Inr likes_create_Inl likes_create_Inr)

lemma like_unlike_Topic:
  assumes "likeTopic t u d = (Inr (), d1)" and "unlikeTopic t u d1 = (Inr (), d2)"
  shows "topics d2 = topics d \<and> likes d2 = likes d
       \<and> \<not> list_ex (\<lambda>r. l_TopicID r = Some t \<and> l_UserID r = u) (likes d2)"
proof -
  from assms(1) obtain a row where
      a: "topics_update_LikesNb t 1 d = (Inr (), a)" and
      c: "likes_create u None (Some t) None None a = (Inr row, d1)"
    by (auto simp add: likeTopic_outcome split: prod.splits sum.splits)
  from assms(2) obtain b where
      b: "topics_update_LikesNb t (- 1) d1 = (Inr (), b)" and
      e: "likes_delete l_TopicID t u b = (Inr (), d2)"
    by (auto simp add: unlikeTopic_outcome split: prod.splits sum.splits)
  note A = topics_update_LikesNb_Inr [OF a] and C = likes_create_Inr [OF c]
    and B = topics_update_LikesNb_Inr [OF b] and E = likes_delete_Inr [OF e]
  have nomatch: "\<not> list_ex (\<lambda>r. l_TopicID r = Some t \<and> l_UserID r = u) (likes d)"
    using C A by (auto simp add: like_collides_def logq_def list_ex_iff)
  have t: "topics d2 = topics d"
    using A B C E
    by (simp add: logq_def
          map_inc_dec [where cnt = t_LikesNb and upd = "\<lambda>x k. x\<lparr>t_LikesNb := k\<rparr>"
            and P = "\<lambda>x. t_TopicID x = t"] del: map_map)
  have l: "likes d2 = likes d"
    using A B C E filter_no_match [OF nomatch] by (simp add: logq_def)
  from t l nomatch show ?thesis by simp
qed

lemma likeQuestion_outcome:
  "likeQuestion t u d =
     (case questions_update_LikesNb t 1 d of
        (Inl e, d1) \<Rightarrow> (Inl (InternalServerErrorException ''Internal Server Error''), d1)
      | (Inr _, d1) \<Rightarrow>
          (case likes_create u None None (Some t) None d1 of
             (Inl e, d2) \<Rightarrow> (Inl (InternalServerErrorException ''Internal Server Error''), d2)
           | (Inr _, d2) \<Rightarrow> (Inr (), d2)))"
  by (simp add: likeQuestion_def io_defs split: prod.splits sum.splits)

lemma unlikeQuestion_outcome:
  "unlikeQuestion t u d =
     (case questions_update_LikesNb t (- 1) d of
        (Inl e, d1) \<Rightarrow> (Inl (InternalServerErrorException ''Internal Server Error''), d1)
      | (Inr _, d1) \<Rightarrow>
          (case likes_delete l_QuestionID t u d1 of
             (Inl e, d2) \<Rightarrow> (Inl (InternalServerErrorException ''Internal Server Error''), d2)
           | (Inr _, d2) \<Rightarrow> (Inr (), d2)))"
  by (simp add: unlikeQuestion_def io_defs split: prod.splits sum.splits)

lemma questions_update_LikesNb_Inl:
  "questions_update_LikesNb t k d = (Inl e, d1) \<Longrightarrow> d1 = logq (Update Questions) d"
  by (auto simp add: questions_update_LikesNb_def prim_defs split: option.splits if_splits)

lemma questions_update_LikesNb_Inr:
  "questions_update_LikesNb t k d = (Inr v, d1) \<Longrightarrow>
     d1 = (logq (Update Questions) d)\<lparr>questions :=
            map (\<lambda>x. if q_QuestionID x = t then x\<lparr>q_LikesNb := q_LikesNb x + k\<rparr> else x) (questions d)\<rparr>
     \<and> has_question d t"
  by (auto simp add: questions_update_LikesNb_def prim_defs split: option.splits if_splits)

lemma likeQuestion_steps:
  "(questions_update_LikesNb t 1 d = (Inl e, d1) \<longrightarrow>
      likeQuestion t u d = (Inl (InternalServerErrorException ''Internal Server Error''), d1)
      \<and> questions d1 = questions d \<and> likes d1 = likes d \<and> calls d1 = calls d @ [Update Questions])
 \<and> (questions_update_LikesNb t 1 d = (Inr (), d1) \<and> likes_create u None None (Some t) None d1 = (Inl e, d2) \<longrightarrow>
      likeQuestion t u d = (Inl (InternalServerErrorException ''Internal Server Error''), d2)
      \<and> has_question d t
      \<and> questions d2 = map (\<lambda>x. if q_QuestionID x = t then x\<lparr>q_LikesNb := q_LikesNb x + 1\<rparr> else x) (questions d)
      \<and> likes d2 = likes d
      \<and> calls d2 = calls d @ [Update Questions, Create Likes])
 \<and> (questions_update_LikesNb t 1 d = (Inr (), d1) \<and> likes_create u None None (Some t) None d1 = (Inr row, d2) \<longrightarrow>
      likeQuestion t u d = (Inr (), d2)
      \<and> has_question d t
      \<and> questions d2 = map (\<lambda>x. if q_QuestionID x = t then x\<lparr>q_LikesNb := q_LikesNb x + 1\<rparr> else x) (questions d)
      \<and> likes d2 = likes d @ [row] \<and> l_QuestionID row = Some t \<and> l_UserID row = u
      \<and> calls d2 = calls d @ [Update Questions, Create Likes])"
  by (auto simp add: likeQuestion_outcome logq_def
      dest!: questions_update_LikesNb_Inl questions_update_LikesNb_Inr likes_create_Inl likes_create_Inr)

lemma like_unlike_Question:
  assumes "likeQuestion t u d = (Inr (), d1)" and "unlikeQuestion t u d1 = (Inr (), d2)"
  shows "questions d2 = questions d \<and> likes d2 = likes d
       \<and> \<not> list_ex (\<lambda>r. l_QuestionID r = Some t \<and> l_UserID r = u) (likes d2)"
proof -
  from assms(1) obtain a row where
      a: "questions_update_LikesNb t 1 d = (Inr (), a)" and
      c: "likes_create u None None (Some t) None a = (Inr row, d1)"
    by (auto simp add: likeQuestion_outcome split: prod.splits sum.splits)
  from assms(2) obtain b where
      b: "questions_update_LikesNb t (- 1) d1 = (Inr (), b)" and
      e: "likes_delete l_QuestionID t u b = (Inr (), d2)"
    by (auto simp add: unlikeQuestion_outcome split: prod.splits sum.splits)
  note A = questions_update_LikesNb_Inr [OF a] and C = likes_create_Inr [OF c]
    and B = questions_update_LikesNb_Inr [OF b] and E = likes_delete_Inr [OF e]
  have nomatch: "\<not> list_ex (\<lambda>r. l_QuestionID r = Some t \<and> l_UserID r = u) (likes d)"
    using C A by (auto simp add: like_collides_def logq_def list_ex_iff)
  have t: "questions d2 = questions d"
    using A B C E
    by (simp add: logq_def
          map_inc_dec [where cnt = q_LikesNb and upd = "\<lambda>x k. x\<lparr>q_LikesNb := k\<rparr>"
            and P = "\<lambda>x. q_QuestionID x = t"] del: map_map)
  have l: "likes d2 = likes d"
    using A B C E filter_no_match [OF nomatch] by (simp add: logq_def)
  from t l nomatch show ?thesis by simp
qed

lemma likeEvent_outcome:
  "likeEvent t u d =
     (case events_update_LikesNB t 1 d of
        (Inl e, d1) \<Rightarrow> (Inl (InternalServerErrorException ''Internal Server Error''), d1)
      | (Inr _, d1) \<Rightarrow>
          (case likes_create u (Some t) None None None d1 of
             (Inl e, d2) \<Rightarrow> (Inl (InternalServerErrorException ''Internal Server Error''), d2)
           | (Inr _, d2) \<Rightarrow> (Inr (), d2)))"
  by (simp add: likeEvent_def io_defs split: prod.splits sum.splits)

lemma unlikeEvent_outcome:
  "unlikeEvent t u d =
     (case events_update_LikesNB t (- 1) d of
        (Inl e, d1) \<Rightarrow> (Inl (InternalServerErrorException ''Internal Server Error''), d1)
      | (Inr _, d1) \<Rightarrow>
          (case likes_delete l_EventID t u d1 of
             (Inl e, d2) \<Rightarrow> (Inl (InternalServerErrorException ''Internal Server Error''), d2)
           | (Inr _, d2) \<Rightarrow> (Inr (), d2)))"
  by (simp add: unlikeEvent_def io_defs split: prod.splits sum.splits)

lemma events_update_LikesNB_Inl:
  "events_update_LikesNB t k d = (Inl e, d1) \<Longrightarrow> d1 = logq (Update Events) d"
  by (auto simp add: events_update_LikesNB_def prim_defs split: option.splits if_splits)

lemma events_update_LikesNB_Inr:
  "events_update_LikesNB t k d = (Inr v, d1) \<Longrightarrow>
     d1 = (logq (Update Events) d)\<lparr>events :=
            map (\<lambda>x. if e_EventID x = t then x\<lparr>e_LikesNB := e_LikesNB x + k\<rparr> else x) (events d)\<rparr>
     \<and> has_event d t"
  by (auto simp add: events_update_LikesNB_def prim_defs split: option.splits if_splits)

lemma likeEvent_steps:
  "(events_update_LikesNB t 1 d = (Inl e, d1) \<longrightarrow>
      likeEvent t u d = (Inl (InternalServerErrorException ''Internal Server Error''), d1)
      \<and> events d1 = events d \<and> likes d1 = likes d \<and> calls d1 = calls d @ [Update Events])
 \<and> (events_update_LikesNB t 1 d = (Inr (), d1) \<and> likes_create u (Some t) None None None d1 = (Inl e, d2) \<longrightarrow>
      likeEvent t u d = (Inl (InternalServerErrorException ''Internal Server Error''), d2)
      \<and> has_event d t
      \<and> events d2 = map (\<lambda>x. if e_EventID x = t then x\<lparr>e_LikesNB := e_LikesNB x + 1\<rparr> else x) (events d)
      \<and> likes d2 = likes d
      \<and> calls d2 = calls d @ [Update Events, Create Likes])
 \<and> (events_update_LikesNB t 1 d = (Inr (), d1) \<and> likes_create u (Some t) None None None d1 = (Inr row, d2) \<longrightarrow>
      likeEvent t u d = (Inr (), d2)
      \<and> has_event d t
      \<and> events d2 = map (\<lambda>x. if e_EventID x = t then x\<lparr>e_LikesNB := e_LikesNB x + 1\<rparr> else x) (events d)
      \<and> likes d2 = likes d @ [row] \<and> l_EventID row = Some t \<and> l_UserID row = u
      \<and> calls d2 = calls d @ [Update Events, Create Likes])"
  by (auto simp add: likeEvent_outcome logq_def
      dest!: events_update_LikesNB_Inl events_update_LikesNB_Inr likes_create_Inl likes_create_Inr)

lemma like_unlike_Event:
  assumes "likeEvent t u d = (Inr (), d1)" and "unlikeEvent t u d1 = (Inr (), d2)"
  shows "events d2 = events d \<and> likes d2 = likes d
       \<and> \<not> list_ex (\<lambda>r. l_EventID r = Some t \<and> l_UserID r = u) (likes d2)"
proof -
  from assms(1) obtain a row where
      a: "events_update_LikesNB t 1 d = (Inr (), a)" and
      c: "likes_create u (Some t) None None None a = (Inr row, d1)"
    by (auto simp add: likeEvent_outcome split: prod.splits sum.splits)
  from assms(2) obtain b where
      b: "events_update_LikesNB t (- 1) d1 = (Inr (), b)" and
      e: "likes_delete l_EventID t u b = (Inr (), d2)"
    by (auto simp add: unlikeEvent_outcome split: prod.splits sum.splits)
  note A = events_update_LikesNB_Inr [OF a] and C = likes_create_Inr [OF c]
    and B = events_update_LikesNB_Inr [OF b] and E = likes_delete_Inr [OF e]
  have nomatch: "\<not> list_ex (\<lambda>r. l_EventID r = Some t \<and> l_UserID r = u) (likes d)"
    using C A by (auto simp add: like_collides_def logq_def list_ex_iff)
  have t: "events d2 = events d"
    using A B C E
    by (simp add: logq_def
          map_inc_dec [where cnt = e_LikesNB and upd = "\<lambda>x k. x\<lparr>e_LikesNB := k\<rparr>"
            and P = "\<lambda>x. e_EventID x = t"] del: map_map)
  have l: "likes d2 = likes d"
    using A B C E filter_no_match [OF nomatch] by (simp add: logq_def)
  from t l nomatch show ?thesis by simp
qed

lemma likeReply_outcome:
  "likeReply t u d =
     (case replies_update_LikesNB t 1 d of
        (Inl e, d1) \<Rightarrow> (Inl (InternalServerErrorException ''Internal Server Error''), d1)
      | (Inr _, d1) \<Rightarrow>
          (case likes_create u None None None (Some t) d1 of
             (Inl e, d2) \<Rightarrow> (Inl (InternalServerErrorException ''Internal Server Error''), d2)
           | (Inr _, d2) \<Rightarrow> (Inr (), d2)))"
  by (simp add: likeReply_def io_defs split: prod.splits sum.splits)

lemma unlikeReply_outcome:
  "unlikeReply t u d =
     (case replies_update_LikesNB t (- 1) d of
        (Inl e, d1) \<Rightarrow> (Inl (InternalServerErrorException ''Internal Server Error''), d1)
      | (Inr _, d1) \<Rightarrow>
          (case likes_delete l_ReplyID t u d1 of
             (Inl e, d2) \<Rightarrow> (Inl (InternalServerErrorException ''Internal Server Error''), d2)
           | (Inr _, d2) \<Rightarrow> (Inr (), d2)))"
  by (simp add: unlikeReply_def io_defs split: prod.splits sum.splits)

lemma replies_update_LikesNB_Inl:
  "replies_update_LikesNB t k d = (Inl e, d1) \<Longrightarrow> d1 = logq (Update Replies) d"
  by (auto simp add: replies_update_LikesNB_def prim_defs split: option.splits if_splits)

lemma replies_update_LikesNB_Inr:
  "replies_update_LikesNB t k d = (Inr v, d1) \<Longrightarrow>
     d1 = (logq (Update Replies) d)\<lparr>replies :=
            map (\<lambda>x. if r_ReplyID x = t then x\<lparr>r_LikesNB := r_LikesNB x + k\<rparr> else x) (replies d)\<rparr>
     \<and> has_reply d t"
  by (auto simp add: replies_update_LikesNB_def prim_defs split: option.splits if_splits)

lemma likeReply_steps:
  "(replies_update_LikesNB t 1 d = (Inl e, d1) \<longrightarrow>
      likeReply t u d = (Inl (InternalServerErrorException ''Internal Server Error''), d1)
      \<and> replies d1 = replies d \<and> likes d1 = likes d \<and> calls d1 = calls d @ [Update Replies])
 \<and> (replies_update_LikesNB t 1 d = (Inr (), d1) \<and> likes_create u None None None (Some t) d1 = (Inl e, d2) \<longrightarrow>
      likeReply t u d = (Inl (InternalServerErrorException ''Internal Server Error''), d2)
      \<and> has_reply d t
      \<and> replies d2 = map (\<lambda>x. if r_ReplyID x = t then x\<lparr>r_LikesNB := r_LikesNB x + 1\<rparr> else x) (replies d)
      \<and> likes d2 = likes d
      \<and> calls d2 = calls d @ [Update Replies, Create Likes])
 \<and> (replies_update_LikesNB t 1 d = (Inr (), d1) \<and> likes_create u None None None (Some t) d1 = (Inr row, d2) \<longrightarrow>
      likeReply t u d = (Inr (), d2)
      \<and> has_reply d t
      \<and> replies d2 = map (\<lambda>x. if r_ReplyID x = t then x\<lparr>r_LikesNB := r_LikesNB x + 1\<rparr> else x) (replies d)
      \<and> likes d2 = likes d @ [row] \<and> l_ReplyID row = Some t \<and> l_UserID row = u
      \<and> calls d2 = calls d @ [Update Replies, Create Likes])"
  by (auto simp add: likeReply_outcome logq_def
      dest!: replies_update_LikesNB_Inl replies_update_LikesNB_Inr likes_create_Inl likes_create_Inr)

lemma like_unlike_Reply:
  assumes "likeReply t u d = (Inr (), d1)" and "unlikeReply t u d1 = (Inr (), d2)"
  shows "replies d2 = replies d \<and> likes d2 = likes d
       \<and> \<not> list_ex (\<lambda>r. l_ReplyID r = Some t \<and> l_UserID r = u) (likes d2)"
proof -
  from assms(1) obtain a row where
      a: "replies_update_LikesNB t 1 d = (Inr (), a)" and
      c: "likes_create u None None None (Some t) a = (Inr row, d1)"
    by (auto simp add: likeReply_outcome split: prod.splits sum.splits)
  from assms(2) obtain b where
      b: "replies_update_LikesNB t (- 1) d1 = (Inr (), b)" and
      e: "likes_delete l_ReplyID t u b = (Inr (), d2)"
    by (auto simp add: unlikeReply_outcome split: prod.splits sum.splits)
  note A = replies_update_LikesNB_Inr [OF a] and C = likes_create_Inr [OF c]
    and B = replies_update_LikesNB_Inr [OF b] and E = likes_delete_Inr [OF e]
  have nomatch: "\<not> list_ex (\<lambda>r. l_ReplyID r = Some t \<and> l_UserID r = u) (likes d)"
    using C A by (auto simp add: like_collides_def logq_def list_ex_iff)
  have t: "replies d2 = replies d"
    using A B C E
    by (simp add: logq_def
          map_inc_dec [where cnt = r_LikesNB and upd = "\<lambda>x k. x\<lparr>r_LikesNB := k\<rparr>"
            and P = "\<lambda>x. r_ReplyID x = t"] del: map_map)
  have l: "likes d2 = likes d"
    using A B C E filter_no_match [OF nomatch] by (simp add: logq_def)
  from t l nomatch show ?thesis by simp
qed

text \<open>
  C5 (as the code has it). A like first raises the target's counter by one and then
  inserts the join row. When the first write fails, the like fails with InternalError
  after that one round trip, with counter and Likes table as they were. When the insert
  fails, the like fails with InternalError too, the counter stays raised and the Likes
  table is as it was: no row has been added. When both succeed, the counter is raised
  and the row of the target and the user is the last of the Likes table. In each case
  the round trips are the update and then the insert.
\<close>

theorem like_two_writes:
  "((topics_update_LikesNb t 1 d = (Inl e, d1) \<longrightarrow>
      likeTopic t u d = (Inl (InternalServerErrorException ''Internal Server Error''), d1)
      \<and> topics d1 = topics d \<and> likes d1 = likes d \<and> calls d1 = calls d @ [Update Topics])
   \<and> (topics_update_LikesNb t 1 d = (Inr (), d1) \<and> likes_create u None (Some t) None None d1 = (Inl e, d2) \<longrightarrow>
      likeTopic t u d = (Inl (InternalServerErrorException ''Internal Server Error''), d2)
      \<and> has_topic d t
      \<and> topics d2 = map (\<lambda>x. if t_TopicID x = t then x\<lparr>t_LikesNb := t_LikesNb x + 1\<rparr> else x) (topics d)
      \<and> likes d2 = likes d
      \<and> calls d2 = calls d @ [Update Topics, Create Likes])
   \<and> (topics_update_LikesNb t 1 d = (Inr (), d1) \<and> likes_create u None (Some t) None None d1 = (Inr row, d2) \<longrightarrow>
      likeTopic t u d = (Inr (), d2)
      \<and> has_topic d t
      \<and> topics d2 = map (\<lambda>x. if t_TopicID x = t then x\<lparr>t_LikesNb := t_LikesNb x + 1\<rparr> else x) (topics d)
      \<and> likes d2 = likes d @ [row] \<and> l_TopicID row = Some t \<and> l_UserID row = u
      \<and> calls d2 = calls d @ [Update Topics, Create Likes]))
 \<and> ((questions_update_LikesNb t 1 d = (Inl e, d1) \<longrightarrow>
      likeQuestion t u d = (Inl (InternalServerErrorException ''Internal Server Error''), d1)
      \<and> questions d1 = questions d \<and> likes d1 = likes d \<and> calls d1 = calls d @ [Update Questions])
   \<and> (questions_update_LikesNb t 1 d = (Inr (), d1) \<and> likes_create u None None (Some t) None d1 = (Inl e, d2) \<longrightarrow>
      likeQuestion t u d = (Inl (InternalServerErrorException ''Internal Server Error''), d2)
      \<and> has_question d t
      \<and> questions d2 = map (\<lambda>x. if q_QuestionID x = t then x\<lparr>q_LikesNb := q_LikesNb x + 1\<rparr> else x) (questions d)
      \<and> likes d2 = likes d
      \<and> calls d2 = calls d @ [Update Questions, Create Likes])
   \<and> (questions_update_LikesNb t 1 d = (Inr (), d1) \<and> likes_create u None None (Some t) None d1 = (Inr row, d2) \<longrightarrow>
      likeQuestion t u d = (Inr (), d2)
      \<and> has_question d t
      \<and> questions d2 = map (\<lambda>x. if q_QuestionID x = t then x\<lparr>q_LikesNb := q_LikesNb x + 1\<rparr> else x) (questions d)
      \<and> likes d2 = likes d @ [row] \<and> l_QuestionID row = Some t \<and> l_UserID row = u
      \<and> calls d2 = calls d @ [Update Questions, Create Likes]))
 \<and> ((events_update_LikesNB t 1 d = (Inl e, d1) \<longrightarrow>
      likeEvent t u d = (Inl (InternalServerErrorException ''Internal Server Error''), d1)
      \<and> events d1 = events d \<and> likes d1 = likes d \<and> calls d1 = calls d @ [Update Events])
   \<and> (events_update_LikesNB t 1 d = (Inr (), d1) \<and> likes_create u (Some t) None None None d1 = (Inl e, d2) \<longrightarrow>
      likeEvent t u d = (Inl (InternalServerErrorException ''Internal Server Error''), d2)
      \<and> has_event d t
      \<and> events d2 = map (\<lambda>x. if e_EventID x = t then x\<lparr>e_LikesNB := e_LikesNB x + 1\<rparr> else x) (events d)
      \<and> likes d2 = likes d
      \<and> calls d2 = calls d @ [Update Events, Create Likes])
   \<and> (events_update_LikesNB t 1 d = (Inr (), d1) \<and> likes_create u (Some t) None None None d1 = (Inr row, d2) \<longrightarrow>
      likeEvent t u d = (Inr (), d2)
      \<and> has_event d t
      \<and> events d2 = map (\<lambda>x. if e_EventID x = t then x\<lparr>e_LikesNB := e_LikesNB x + 1\<rparr> else x) (events d)
      \<and> likes d2 = likes d @ [row] \<and> l_EventID row = Some t \<and> l_UserID row = u
      \<and> calls d2 = calls d @ [Update Events, Create Likes]))
 \<and> ((replies_update_LikesNB t 1 d = (Inl e, d1) \<longrightarrow>
      likeReply t u d = (Inl (InternalServerErrorException ''Internal Server Error''), d1)
      \<and> replies d1 = replies d \<and> likes d1 = likes d \<and> calls d1 = calls d @ [Update Replies])
   \<and> (replies_update_LikesNB t 1 d = (Inr (), d1) \<and> likes_create u None None None (Some t) d1 = (Inl e, d2) \<longrightarrow>
      likeReply t u d = (Inl (InternalServerErrorException ''Internal Server Error''), d2)
      \<and> has_reply d t
      \<and> replies d2 = map (\<lambda>x. if r_ReplyID x = t then x\<lparr>r_LikesNB := r_LikesNB x + 1\<rparr> else x) (replies d)
      \<and> likes d2 = likes d
      \<and> calls d2 = calls d @ [Update Replies, Create Likes])
   \<and> (replies_update_LikesNB t 1 d = (Inr (), d1) \<and> likes_create u None None None (Some t) d1 = (Inr row, d2) \<longrightarrow>
      likeReply t u d = (Inr (), d2)
      \<and> has_reply d t
      \<and> replies d2 = map (\<lambda>x. if r_ReplyID x = t then x\<lparr>r_LikesNB := r_LikesNB x + 1\<rparr> else x) (replies d)
      \<and> likes d2 = likes d @ [row] \<and> l_ReplyID row = Some t \<and> l_UserID row = u
      \<and> calls d2 = calls d @ [Update Replies, Create Likes]))"
  by (rule conjI [OF likeTopic_steps conjI [OF likeQuestion_steps
        conjI [OF likeEvent_steps likeReply_steps]]])

theorem like_two_writes_witness:
  "likeTopic 7 2 store_topic
     = (Inl (InternalServerErrorException ''Internal Server Error''), logq (Update Topics) store_topic)
 \<and> fst (likeTopic 1 2 store_liked) = Inl (InternalServerErrorException ''Internal Server Error'')
 \<and> map t_LikesNb (topics (snd (likeTopic 1 2 store_liked))) = [2]
 \<and> likes (snd (likeTopic 1 2 store_liked)) = likes store_liked
 \<and> fst (likeTopic 1 2 store_topic) = Inr ()
 \<and> map t_LikesNb (topics (snd (likeTopic 1 2 store_topic))) = [1]
 \<and> map (\<lambda>r. (l_TopicID r, l_UserID r)) (likes (snd (likeTopic 1 2 store_topic))) = [(Some 1, 2)]"
proof -
  note T = like_two_writes [THEN conjunct1]
  have h1: "topics_update_LikesNb 7 1 store_topic
              = (Inl (PrismaError ''P2025''), logq (Update Topics) store_topic)"
    by (simp add: topics_update_LikesNb_def store_topic_eq store_users_eq eval_defs)
  from T [THEN conjunct1, rule_format, OF h1]
  have b1: "likeTopic 7 2 store_topic
     = (Inl (InternalServerErrorException ''Internal Server Error''), logq (Update Topics) store_topic)"
    by simp
  obtain d1 where h2: "topics_update_LikesNb 1 1 store_liked = (Inr (), d1)"
    by (simp add: topics_update_LikesNb_def store_liked_eq store_topic_eq store_users_eq eval_defs)
  from topics_update_LikesNb_Inr [OF h2]
  obtain e d2 where h3: "likes_create 2 None (Some 1) None None d1 = (Inl e, d2)"
    by (simp add: likes_create_def store_liked_eq store_topic_eq store_users_eq eval_defs)
  from T [THEN conjunct2, THEN conjunct1, rule_format, OF conjI [OF h2 h3]]
  have b2: "fst (likeTopic 1 2 store_liked) = Inl (InternalServerErrorException ''Internal Server Error'')
     \<and> map t_LikesNb (topics (snd (likeTopic 1 2 store_liked))) = [2]
     \<and> likes (snd (likeTopic 1 2 store_liked)) = likes store_liked"
    by (simp add: store_liked_eq)
  obtain d3 where h4: "topics_update_LikesNb 1 1 store_topic = (Inr (), d3)"
    by (simp add: topics_update_LikesNb_def store_topic_eq store_users_eq eval_defs)
  from topics_update_LikesNb_Inr [OF h4]
  obtain row d4 where h5: "likes_create 2 None (Some 1) None None d3 = (Inr row, d4)"
    by (simp add: likes_create_def store_topic_eq store_users_eq eval_defs)
  from T [THEN conjunct2, THEN conjunct2, rule_format, OF conjI [OF h4 h5]]
  have b3: "fst (likeTopic 1 2 store_topic) = Inr ()
     \<and> map t_LikesNb (topics (snd (likeTopic 1 2 store_topic))) = [1]
     \<and> map (\<lambda>r. (l_TopicID r, l_UserID r)) (likes (snd (likeTopic 1 2 store_topic))) = [(Some 1, 2)]"
    by (simp add: store_topic_eq store_users_eq empty_db_def)
  from b1 b2 b3 show ?thesis by simp
qed

text \<open>
  C5 as claimed says that after a failed insert the store has no matching join row. The
  second like of the same topic by the same user fails on the unique index: the counter
  is 2 and the join row of the first like is there.
\<close>

theorem like_twice_leaves_matching_row:
  "fst (likeTopic 1 2 store_liked) = Inl (InternalServerErrorException ''Internal Server Error'')
 \<and> map t_LikesNb (topics (snd (likeTopic 1 2 store_liked))) = [2]
 \<and> list_ex (\<lambda>r. l_TopicID r = Some 1 \<and> l_UserID r = 2) (likes (snd (likeTopic 1 2 store_liked)))"
  by (simp add: store_liked_eq store_topic_eq store_users_eq likeTopic_def
      topics_update_LikesNb_def likes_create_def eval_defs)

text \<open>
  C6. When a like succeeds and the unlike of the same target by the same user succeeds
  on the store it leaves, the target's table is what it was before the like, counters
  included, the Likes table is what it was, and it holds no row of that target and user.
\<close>

theorem like_then_unlike:
  "(likeTopic t u d = (Inr (), d1) \<and> unlikeTopic t u d1 = (Inr (), d2) \<longrightarrow>
      topics d2 = topics d \<and> likes d2 = likes d
      \<and> \<not> list_ex (\<lambda>r. l_TopicID r = Some t \<and> l_UserID r = u) (likes d2))
 \<and> (likeQuestion t u d = (Inr (), d1) \<and> unlikeQuestion t u d1 = (Inr (), d2) \<longrightarrow>
      questions d2 = questions d \<and> likes d2 = likes d
      \<and> \<not> list_ex (\<lambda>r. l_QuestionID r = Some t \<and> l_UserID r = u) (likes d2))
 \<and> (likeEvent t u d = (Inr (), d1) \<and> unlikeEvent t u d1 = (Inr (), d2) \<longrightarrow>
      events d2 = events d \<and> likes d2 = likes d
      \<and> \<not> list_ex (\<lambda>r. l_EventID r = Some t \<and> l_UserID r = u) (likes d2))
 \<and> (likeReply t u d = (Inr (), d1) \<and> unlikeReply t u d1 = (Inr (), d2) \<longrightarrow>
      replies d2 = replies d \<and> likes d2 = likes d
      \<and> \<not> list_ex (\<lambda>r. l_ReplyID r = Some t \<and> l_UserID r = u) (likes d2))"
  using like_unlike_Topic [of t u d d1 d2] like_unlike_Question [of t u d d1 d2]
    like_unlike_Event [of t u d d1 d2] like_unlike_Reply [of t u d d1 d2]
  by blast

theorem like_then_unlike_witness:
  "likeTopic 1 2 store_topic = (Inr (), store_liked)
 \<and> fst (unlikeTopic 1 2 store_liked) = Inr ()
 \<and> topics (snd (unlikeTopic 1 2 store_liked)) = topics store_topic
 \<and> likes (snd (unlikeTopic 1 2 store_liked)) = []
 \<and> map t_LikesNb (topics store_topic) = [0]"
proof -
  have h1: "likeTopic 1 2 store_topic = (Inr (), store_liked)"
    by (simp add: likeTopic_def topics_update_LikesNb_def likes_create_def store_liked_eq
        store_topic_eq store_users_eq eval_defs)
  obtain d2 where h2: "unlikeTopic 1 2 store_liked = (Inr (), d2)"
    by (simp add: unlikeTopic_def topics_update_LikesNb_def likes_delete_def store_liked_eq
        store_topic_eq store_users_eq eval_defs)
  from like_then_unlike [THEN conjunct1, rule_format, OF conjI [OF h1 h2]] h1 h2
  show ?thesis
    by (simp add: store_topic_eq store_users_eq empty_db_def)
qed

subsection \<open>The targets of a reply\<close>

text \<open>Most operations leave the Replies table as it is.\<close>

lemma replies_signup: "replies (snd (signup hash userData d)) = replies d"
  by (simp add: signup_def io_defs users_findUnique_Email_def users_create_def prim_defs
      split: option.splits)

lemma replies_login: "replies (snd (login compare signAsync now dur em pw d)) = replies d"
  by (simp add: login_def io_defs users_findUnique_Email_def prim_defs split: option.splits)

lemma replies_deleteUser: "replies (snd (deleteUser i d)) = replies d"
  by (simp add: deleteUser_def io_defs users_findUnique_UserID_def users_delete_def prim_defs
      split: option.splits)

lemma replies_use: "replies (snd (use verify authorization d)) = replies d"
  by (simp add: use_def io_defs users_findUnique_UserID_def prim_defs split: option.splits)

lemma replies_likeTopic: "replies (snd (likeTopic i u d)) = replies d"
  by (auto simp add: likeTopic_outcome logq_def split: prod.splits sum.splits
      dest!: topics_update_LikesNb_Inl topics_update_LikesNb_Inr likes_create_Inl likes_create_Inr)

lemma replies_unlikeTopic: "replies (snd (unlikeTopic i u d)) = replies d"
  by (auto simp add: unlikeTopic_outcome likes_delete_def prim_defs split: prod.splits sum.splits if_splits
      dest!: topics_update_LikesNb_Inl topics_update_LikesNb_Inr)

lemma replies_likeQuestion: "replies (snd (likeQuestion i u d)) = replies d"
  by (auto simp add: likeQuestion_outcome logq_def split: prod.splits sum.splits
      dest!: questions_update_LikesNb_Inl questions_update_LikesNb_Inr likes_create_Inl likes_create_Inr)

lemma replies_unlikeQuestion: "replies (snd (unlikeQuestion i u d)) = replies d"
  by (auto simp add: unlikeQuestion_outcome likes_delete_def prim_defs split: prod.splits sum.splits if_splits
      dest!: questions_update_LikesNb_Inl questions_update_LikesNb_Inr)

lemma replies_likeEvent: "replies (snd (likeEvent i u d)) = replies d"
  by (auto simp add: likeEvent_outcome logq_def split: prod.splits sum.splits
      dest!: events_update_LikesNB_Inl events_update_LikesNB_Inr likes_create_Inl likes_create_Inr)

lemma replies_unlikeEvent: "replies (snd (unlikeEvent i u d)) = replies d"
  by (auto simp add: unlikeEvent_outcome likes_delete_def prim_defs split: prod.splits sum.splits if_splits
      dest!: events_update_LikesNB_Inl events_update_LikesNB_Inr)

lemma replies_DiscussionsService_filtered:
  "replies (snd (DiscussionsService_filtered (topics_findMany_Title ilike) lc q s d)) = replies d"
  by (simp add: DiscussionsService_filtered_def io_defs topics_findMany_Title_def prim_defs)

lemma replies_QuestionsService_filtered:
  "replies (snd (QuestionsService_filtered (questions_findMany_Title ilike) lc q s d)) = replies d"
  by (simp add: QuestionsService_filtered_def io_defs questions_findMany_Title_def prim_defs)

lemma replies_EventsService_filtered:
  "replies (snd (EventsService_filtered (events_findMany_Title ilike) lc q s d)) = replies d"
  by (simp add: EventsService_filtered_def io_defs events_findMany_Title_def prim_defs)

lemma replies_filteredForQuestion:
  "replies (snd (filteredForQuestion replies_findMany_QuestionID lc q i d)) = replies d"
  by (simp add: filteredForQuestion_def io_defs replies_findMany_QuestionID_def prim_defs)

lemma replies_filteredForTopic:
  "replies (snd (filteredForTopic replies_findMany_TopicID lc q i d)) = replies d"
  by (simp add: filteredForTopic_def io_defs replies_findMany_TopicID_def prim_defs)

lemma replies_DiscussionsService_create: "replies (snd (DiscussionsService_create dto d)) = replies d"
  by (simp add: DiscussionsService_create_def io_defs topics_create_def prim_defs split: option.splits)

lemma replies_QuestionsService_create: "replies (snd (QuestionsService_create dto d)) = replies d"
  by (simp add: QuestionsService_create_def io_defs questions_create_def prim_defs split: option.splits)

lemma replies_EventsService_create: "replies (snd (EventsService_create dto d)) = replies d"
  by (simp add: EventsService_create_def io_defs events_create_def prim_defs split: option.splits)

lemma replies_EventsService_delete: "replies (snd (EventsService_delete i d)) = replies d"
  by (simp add: EventsService_delete_def io_defs events_findUnique_def events_delete_def prim_defs
      split: option.splits)

text \<open>
  The others add a row with one target, drop rows, rewrite a column that is not a
  target, or set a target to \<open>NULL\<close>.
\<close>

lemma targets_DiscussionsService_delete:
  "\<forall>r\<in>set (replies d). r_TopicID r = None \<or> r_QuestionID r = None \<Longrightarrow>
   \<forall>r\<in>set (replies (snd (DiscussionsService_delete i d))). r_TopicID r = None \<or> r_QuestionID r = None"
  by ((auto simp add: DiscussionsService_delete_def io_defs topics_findUnique_def topics_delete_def
      prim_defs null_if_def split: option.splits if_splits); force)

lemma targets_QuestionsService_delete:
  "\<forall>r\<in>set (replies d). r_TopicID r = None \<or> r_QuestionID r = None \<Longrightarrow>
   \<forall>r\<in>set (replies (snd (QuestionsService_delete i d))). r_TopicID r = None \<or> r_QuestionID r = None"
  by ((auto simp add: QuestionsService_delete_def io_defs questions_findUnique_def
      questions_delete_def prim_defs null_if_def split: option.splits if_splits); force)

lemma targets_likeReply:
  "\<forall>r\<in>set (replies d). r_TopicID r = None \<or> r_QuestionID r = None \<Longrightarrow>
   \<forall>r\<in>set (replies (snd (likeReply i u d))). r_TopicID r = None \<or> r_QuestionID r = None"
  by ((auto simp add: likeReply_outcome logq_def split: prod.splits sum.splits if_splits
      dest!: replies_update_LikesNB_Inl replies_update_LikesNB_Inr likes_create_Inl likes_create_Inr); force)

lemma targets_unlikeReply:
  "\<forall>r\<in>set (replies d). r_TopicID r = None \<or> r_QuestionID r = None \<Longrightarrow>
   \<forall>r\<in>set (replies (snd (unlikeReply i u d))). r_TopicID r = None \<or> r_QuestionID r = None"
  by ((auto simp add: unlikeReply_outcome likes_delete_def prim_defs split: prod.splits sum.splits if_splits
      dest!: replies_update_LikesNB_Inl replies_update_LikesNB_Inr); force)

lemma createForTopic_row:
  "createForTopic dto d = (Inr row, d') \<Longrightarrow>
     r_TopicID row = cr_TargetID dto \<and> r_TopicID row \<noteq> None \<and> r_QuestionID row = None
     \<and> replies d' = replies d @ [row]"
  by (auto simp add: createForTopic_def io_defs replies_create_def prim_defs
      split: option.splits if_splits)

lemma createForQuestion_row:
  "createForQuestion dto d = (Inr row, d') \<Longrightarrow>
     r_QuestionID row = cr_TargetID dto \<and> r_QuestionID row \<noteq> None \<and> r_TopicID row = None
     \<and> replies d' = replies d @ [row]"
  by (auto simp add: createForQuestion_def io_defs replies_create_def prim_defs
      split: option.splits if_splits)

lemma createForTopic_failed:
  "createForTopic dto d = (Inl e, d') \<Longrightarrow> replies d' = replies d"
  by (auto simp add: createForTopic_def io_defs replies_create_def prim_defs
      split: option.splits if_splits)

lemma createForQuestion_failed:
  "createForQuestion dto d = (Inl e, d') \<Longrightarrow> replies d' = replies d"
  by (auto simp add: createForQuestion_def io_defs replies_create_def prim_defs
      split: option.splits if_splits)

lemma targets_createForTopic:
  assumes "\<forall>r\<in>set (replies d). r_TopicID r = None \<or> r_QuestionID r = None"
  shows "\<forall>r\<in>set (replies (snd (createForTopic dto d))). r_TopicID r = None \<or> r_QuestionID r = None"
proof (cases "createForTopic dto d")
  case (Pair res d')
  then show ?thesis
    using assms createForTopic_row [of dto d _ d'] createForTopic_failed [of dto d _ d']
    by (cases res) auto
qed

lemma targets_createForQuestion:
  assumes "\<forall>r\<in>set (replies d). r_TopicID r = None \<or> r_QuestionID r = None"
  shows "\<forall>r\<in>set (replies (snd (createForQuestion dto d))). r_TopicID r = None \<or> r_QuestionID r = None"
proof (cases "createForQuestion dto d")
  case (Pair res d')
  then show ?thesis
    using assms createForQuestion_row [of dto d _ d'] createForQuestion_failed [of dto d _ d']
    by (cases res) auto
qed

lemma targets_RepliesService_delete:
  "\<forall>r\<in>set (replies d). r_TopicID r = None \<or> r_QuestionID r = None \<Longrightarrow>
   \<forall>r\<in>set (replies (snd (RepliesService_delete i d))). r_TopicID r = None \<or> r_QuestionID r = None"
  by ((auto simp add: RepliesService_delete_def io_defs replies_findUnique_def replies_delete_def
      prim_defs split: option.splits if_splits); force)

lemma targets_updateReply:
  "\<forall>r\<in>set (replies d). r_TopicID r = None \<or> r_QuestionID r = None \<Longrightarrow>
   \<forall>r\<in>set (replies (snd (updateReply dto d))). r_TopicID r = None \<or> r_QuestionID r = None"
  by ((auto simp add: updateReply_def io_defs replies_findUnique_def replies_update_Content_def
      prim_defs split: option.splits if_splits); force)

lemma reachable_targets:
  "reachable d \<Longrightarrow> \<forall>r\<in>set (replies d). r_TopicID r = None \<or> r_QuestionID r = None"
proof (induction rule: reachable.induct)
  case r_init
  show ?case by (simp add: empty_db_def)
next
  case (r_deleteTopic d i)
  from r_deleteTopic.IH show ?case by (rule targets_DiscussionsService_delete)
next
  case (r_deleteQuestion d i)
  from r_deleteQuestion.IH show ?case by (rule targets_QuestionsService_delete)
next
  case (r_likeReply d i u)
  from r_likeReply.IH show ?case by (rule targets_likeReply)
next
  case (r_unlikeReply d i u)
  from r_unlikeReply.IH show ?case by (rule targets_unlikeReply)
next
  case (r_createForTopic d cr)
  from r_createForTopic.IH show ?case by (rule targets_createForTopic)
next
  case (r_createForQuestion d cr)
  from r_createForQuestion.IH show ?case by (rule targets_createForQuestion)
next
  case (r_deleteReply d i)
  from r_deleteReply.IH show ?case by (rule targets_RepliesService_delete)
next
  case (r_updateReply d ur)
  from r_updateReply.IH show ?case by (rule targets_updateReply)
qed (simp_all add: replies_signup replies_login replies_deleteUser replies_use
      replies_likeTopic replies_unlikeTopic replies_likeQuestion replies_unlikeQuestion
      replies_likeEvent replies_unlikeEvent replies_DiscussionsService_filtered
      replies_QuestionsService_filtered replies_EventsService_filtered
      replies_filteredForQuestion replies_filteredForTopic replies_DiscussionsService_create
      replies_QuestionsService_create replies_EventsService_create replies_EventsService_delete)

text \<open>
  What a deletion that succeeds does to the replies: those of the deleted topic (the
  deleted question) stay in the table, their \<open>TopicID\<close> (\<open>QuestionID\<close>) set to
  \<open>NULL\<close>, and no other reply changes.
\<close>

lemma null_TopicID:
  "r\<lparr>r_TopicID := null_if i (r_TopicID r)\<rparr>
     = (if r_TopicID r = Some i then r\<lparr>r_TopicID := None\<rparr> else r)"
  by (simp add: null_if_def)

lemma null_QuestionID:
  "r\<lparr>r_QuestionID := null_if i (r_QuestionID r)\<rparr>
     = (if r_QuestionID r = Some i then r\<lparr>r_QuestionID := None\<rparr> else r)"
  by (simp add: null_if_def)

lemma DiscussionsService_delete_replies:
  "DiscussionsService_delete i d = (Inr (), d') \<Longrightarrow>
   replies d' = map (\<lambda>r. if r_TopicID r = Some i then r\<lparr>r_TopicID := None\<rparr> else r) (replies d)"
  by (auto simp add: DiscussionsService_delete_def io_defs topics_findUnique_def topics_delete_def
      prim_defs null_TopicID split: option.splits if_splits)

lemma QuestionsService_delete_replies:
  "QuestionsService_delete i d = (Inr (), d') \<Longrightarrow>
   replies d' = map (\<lambda>r. if r_QuestionID r = Some i then r\<lparr>r_QuestionID := None\<rparr> else r) (replies d)"
  by (auto simp add: QuestionsService_delete_def io_defs questions_findUnique_def
      questions_delete_def prim_defs null_QuestionID split: option.splits if_splits)

lemma DiscussionsService_delete_orphans:
  assumes "reachable d" and "DiscussionsService_delete i d = (Inr (), d')"
    and "r \<in> set (replies d)" and "r_TopicID r = Some i"
  shows "r\<lparr>r_TopicID := None\<rparr> \<in> set (replies d') \<and> r_QuestionID r = None"
proof -
  from reachable_targets [OF assms(1)] assms(3,4) have "r_QuestionID r = None"
    by auto
  moreover from DiscussionsService_delete_replies [OF assms(2)] assms(3,4)
  have "r\<lparr>r_TopicID := None\<rparr> \<in> set (replies d')"
    by (auto simp add: image_iff intro!: bexI [of _ r])
  ultimately show ?thesis
    by simp
qed

lemma QuestionsService_delete_orphans:
  assumes "reachable d" and "QuestionsService_delete i d = (Inr (), d')"
    and "r \<in> set (replies d)" and "r_QuestionID r = Some i"
  shows "r\<lparr>r_QuestionID := None\<rparr> \<in> set (replies d') \<and> r_TopicID r = None"
proof -
  from reachable_targets [OF assms(1)] assms(3,4) have "r_TopicID r = None"
    by auto
  moreover from QuestionsService_delete_replies [OF assms(2)] assms(3,4)
  have "r\<lparr>r_QuestionID := None\<rparr> \<in> set (replies d')"
    by (auto simp add: image_iff intro!: bexI [of _ r])
  ultimately show ?thesis
    by simp
qed

text \<open>
  C9 (as the code has it). The row that \<open>createForTopic\<close> creates has its \<open>TopicID\<close>
  set to the target and no \<open>QuestionID\<close>; the row that \<open>createForQuestion\<close> creates
  has its \<open>QuestionID\<close> set to the target and no \<open>TopicID\<close>. In every reachable store
  no reply row names both a topic and a question. A topic or a question can be deleted
  while it has replies: each of them stays in the table with that target set to \<open>NULL\<close>
  and no other reply changes, so in a reachable store each reply of the deleted topic
  or question is left naming neither a topic nor a question.
\<close>

theorem reply_targets:
  "(createForTopic dto d = (Inr row, d') \<longrightarrow>
      r_TopicID row = cr_TargetID dto \<and> r_TopicID row \<noteq> None \<and> r_QuestionID row = None
      \<and> replies d' = replies d @ [row])
 \<and> (createForQuestion dto d = (Inr row, d') \<longrightarrow>
      r_QuestionID row = cr_TargetID dto \<and> r_QuestionID row \<noteq> None \<and> r_TopicID row = None
      \<and> replies d' = replies d @ [row])
 \<and> (reachable d \<longrightarrow> (\<forall>r\<in>set (replies d). r_TopicID r = None \<or> r_QuestionID r = None))
 \<and> (DiscussionsService_delete i d = (Inr (), d') \<longrightarrow>
      replies d' = map (\<lambda>r. if r_TopicID r = Some i then r\<lparr>r_TopicID := None\<rparr> else r)
                     (replies d))
 \<and> (QuestionsService_delete i d = (Inr (), d') \<longrightarrow>
      replies d' = map (\<lambda>r. if r_QuestionID r = Some i then r\<lparr>r_QuestionID := None\<rparr> else r)
                     (replies d))
 \<and> (reachable d \<and> DiscussionsService_delete i d = (Inr (), d') \<and> r \<in> set (replies d)
      \<and> r_TopicID r = Some i \<longrightarrow>
      r\<lparr>r_TopicID := None\<rparr> \<in> set (replies d') \<and> r_QuestionID r = None)
 \<and> (reachable d \<and> QuestionsService_delete i d = (Inr (), d') \<and> r \<in> set (replies d)
      \<and> r_QuestionID r = Some i \<longrightarrow>
      r\<lparr>r_QuestionID := None\<rparr> \<in> set (replies d') \<and> r_TopicID r = None)"
  using createForTopic_row [of dto d row d'] createForQuestion_row [of dto d row d']
    reachable_targets [of d] DiscussionsService_delete_replies [of i d d']
    QuestionsService_delete_replies [of i d d'] DiscussionsService_delete_orphans [of d i d' r]
    QuestionsService_delete_orphans [of d i d' r]
  by blast

theorem reply_targets_witness:
  "createForTopic \<lparr>cr_Content = Some ''R'', cr_CreatedAt = Some 2000, cr_CreatorID = Some 2,
                   cr_TargetID = Some 1\<rparr> store_topic
     = (Inr reply_R, store_reply)
 \<and> r_TopicID reply_R = Some 1 \<and> r_QuestionID reply_R = None
 \<and> replies store_reply = replies store_topic @ [reply_R]
 \<and> createForQuestion \<lparr>cr_Content = Some ''M'', cr_CreatedAt = Some 172801000,
                      cr_CreatorID = Some 1, cr_TargetID = Some 1\<rparr> store_question
     = (Inr reply_M, store_answer)
 \<and> r_QuestionID reply_M = Some 1 \<and> r_TopicID reply_M = None
 \<and> replies store_answer = replies store_question @ [reply_M]
 \<and> reachable store_answer
 \<and> list_all (\<lambda>r. r_TopicID r = None \<or> r_QuestionID r = None) (replies store_answer)
 \<and> DiscussionsService_delete 1 store_answer = (Inr (), store_answered)
 \<and> replies store_answer = [reply_R, reply_M]
 \<and> replies store_answered = [reply_R\<lparr>r_TopicID := None\<rparr>, reply_M]
 \<and> list_ex (\<lambda>r. r_TopicID r = None \<and> r_QuestionID r = None) (replies store_answered)
 \<and> QuestionsService_delete 1 store_answer = (Inr (), store_unasked)
 \<and> replies store_unasked = [reply_R, reply_M\<lparr>r_QuestionID := None\<rparr>]
 \<and> list_ex (\<lambda>r. r_TopicID r = None \<and> r_QuestionID r = None) (replies store_unasked)"
proof -
  let ?dtoR = "\<lparr>cr_Content = Some ''R'', cr_CreatedAt = Some 2000, cr_CreatorID = Some 2,
                cr_TargetID = Some 1\<rparr>"
  let ?dtoM = "\<lparr>cr_Content = Some ''M'', cr_CreatedAt = Some 172801000, cr_CreatorID = Some 1,
                cr_TargetID = Some 1\<rparr>"
  have h1: "createForTopic ?dtoR store_topic = (Inr reply_R, store_reply)"
    by (simp add: store_reply_eq store_topic_eq store_users_eq createForTopic_def
        replies_create_def eval_defs row_defs)
  from reply_targets [where dto = ?dtoR and d = store_topic and row = reply_R
      and d' = store_reply, THEN conjunct1, THEN mp, OF h1]
  have a1: "r_TopicID reply_R = Some 1 \<and> r_QuestionID reply_R = None
      \<and> replies store_reply = replies store_topic @ [reply_R]"
    by simp
  have h2: "createForQuestion ?dtoM store_question = (Inr reply_M, store_answer)"
    by (simp add: store_answer_eq store_question_eq store_reply_eq store_topic_eq store_users_eq
        createForQuestion_def replies_create_def eval_defs row_defs)
  from reply_targets [where dto = ?dtoM and d = store_question and row = reply_M
      and d' = store_answer, THEN conjunct2, THEN conjunct1, THEN mp, OF h2]
  have a2: "r_QuestionID reply_M = Some 1 \<and> r_TopicID reply_M = None
      \<and> replies store_answer = replies store_question @ [reply_M]"
    by simp
  from reply_targets [where d = store_answer, THEN conjunct2, THEN conjunct2, THEN conjunct1,
      THEN mp, OF reachable_store_answer]
  have a3: "list_all (\<lambda>r. r_TopicID r = None \<or> r_QuestionID r = None) (replies store_answer)"
    by (simp add: list_all_iff)
  have rs: "replies store_answer = [reply_R, reply_M]"
    by (simp add: store_answer_eq row_defs)
  have h4: "DiscussionsService_delete 1 store_answer = (Inr (), store_answered)"
    by (simp add: store_answered_def store_answer_eq store_question_eq store_reply_eq
        store_topic_eq store_users_eq DiscussionsService_delete_def topics_findUnique_def
        topics_delete_def eval_defs)
  from reply_targets [where i = 1 and d = store_answer and d' = store_answered,
      THEN conjunct2, THEN conjunct2, THEN conjunct2, THEN conjunct1, THEN mp, OF h4]
  have a4: "replies store_answered = [reply_R\<lparr>r_TopicID := None\<rparr>, reply_M]"
    by (simp add: rs) (simp add: row_defs)
  have m4: "reply_R \<in> set (replies store_answer)"
    by (simp add: rs)
  have t4: "r_TopicID reply_R = Some 1"
    by (simp add: row_defs)
  from reply_targets [where i = 1 and d = store_answer and d' = store_answered and r = reply_R,
      THEN conjunct2, THEN conjunct2, THEN conjunct2, THEN conjunct2, THEN conjunct2,
      THEN conjunct1, THEN mp, OF conjI [OF reachable_store_answer conjI [OF h4 conjI [OF m4 t4]]]]
  have a5: "list_ex (\<lambda>r. r_TopicID r = None \<and> r_QuestionID r = None) (replies store_answered)"
    by (auto simp add: list_ex_iff intro!: bexI [of _ "reply_R\<lparr>r_TopicID := None\<rparr>"])
  have h6: "QuestionsService_delete 1 store_answer = (Inr (), store_unasked)"
    by (simp add: store_unasked_def store_answer_eq store_question_eq store_reply_eq
        store_topic_eq store_users_eq QuestionsService_delete_def questions_findUnique_def
        questions_delete_def eval_defs)
  from reply_targets [where i = 1 and d = store_answer and d' = store_unasked,
      THEN conjunct2, THEN conjunct2, THEN conjunct2, THEN conjunct2, THEN conjunct1, THEN mp,
      OF h6]
  have a6: "replies store_unasked = [reply_R, reply_M\<lparr>r_QuestionID := None\<rparr>]"
    by (simp add: rs) (simp add: row_defs)
  have m6: "reply_M \<in> set (replies store_answer)"
    by (simp add: rs)
  have t6: "r_QuestionID reply_M = Some 1"
    by (simp add: row_defs)
  from reply_targets [where i = 1 and d = store_answer and d' = store_unasked and r = reply_M,
      THEN conjunct2, THEN conjunct2, THEN conjunct2, THEN conjunct2, THEN conjunct2,
      THEN conjunct2, THEN mp, OF conjI [OF reachable_store_answer conjI [OF h6 conjI [OF m6 t6]]]]
  have a7: "list_ex (\<lambda>r. r_TopicID r = None \<and> r_QuestionID r = None) (replies store_unasked)"
    by (auto simp add: list_ex_iff intro!: bexI [of _ "reply_M\<lparr>r_QuestionID := None\<rparr>"])
  from h1 a1 h2 a2 reachable_store_answer a3 h4 rs a4 a5 h6 a6 a7 show ?thesis
    by simp
qed

text \<open>
  C9 as claimed says that no reachable reply row is without a target. Deleting the topic
  of a reply succeeds and sets the reply's \<open>TopicID\<close> to \<open>NULL\<close>
  (\<open>ON DELETE SET NULL\<close>): the row then names neither a topic nor a question.
\<close>

theorem reply_without_target_counterexample:
  "reachable store_orphan
 \<and> fst (DiscussionsService_delete 1 store_reply) = Inr ()
 \<and> map (\<lambda>r. (r_ReplyID r, r_TopicID r, r_QuestionID r)) (replies store_orphan) = [(1, None, None)]"
proof -
  have "reachable store_orphan"
    unfolding store_orphan_def by (rule r_deleteTopic [OF reachable_store_reply])
  then show ?thesis
    by (simp add: store_orphan_def store_reply_eq store_topic_eq store_users_eq
        DiscussionsService_delete_def topics_findUnique_def topics_delete_def null_if_def eval_defs)
qed

end
